theory Spec2Isabelle
  imports Complex_Main
begin

section \<open>Tensors, errors and the layers of the library\<close>

text \<open>
  The notebook \<^verbatim>\<open>token_learner\<close> (Learning to tokenize in Vision Transformers) builds a
  Keras model out of library layers. A tensor is its static shape together with its
  entries, read by a multi-index; the entries are real numbers, the idealisation of the
  floating-point numbers of the program (rounding, overflow and underflow are not part of
  it). A layer call either raises (Keras raises \<^verbatim>\<open>ValueError\<close> from the shapes alone) or
  returns the output tensor. Where the program computes entries that are not numbers (the
  mean over an empty axis) no real entry stands for them, and the outcome is
  \<open>NotANumber\<close>.
\<close>

datatype error = ValueError | ZeroDivisionError | NotANumber

record tensor =
  shape :: "nat list"
  elems :: "nat list \<Rightarrow> real"

definition and_then :: "error + 'a \<Rightarrow> ('a \<Rightarrow> error + 'b) \<Rightarrow> error + 'b" where
  "and_then m f = (case m of Inl e \<Rightarrow> Inl e | Inr v \<Rightarrow> f v)"

subsection \<open>Activations\<close>

definition sigmoid :: "real \<Rightarrow> real" where
  "sigmoid x = 1 / (1 + exp (- x))"

text \<open>The error function by its power series; \<^verbatim>\<open>tf.nn.gelu\<close> is the exact (erf) variant.\<close>

definition erf :: "real \<Rightarrow> real" where
  "erf x = 2 / sqrt pi * (\<Sum>n. (- 1) ^ n * x ^ (2 * n + 1) / (fact n * real (2 * n + 1)))"

definition gelu :: "real \<Rightarrow> real" where
  "gelu x = 0.5 * x * (1 + erf (x / sqrt 2))"

subsection \<open>LayerNormalization\<close>

record layer_norm_weights =
  gamma :: "nat \<Rightarrow> real"
  beta :: "nat \<Rightarrow> real"

text \<open>Normalisation over the last axis: mean and variance of the channel vector an entry
  lies in, then scale and shift.\<close>

definition LayerNormalization :: "real \<Rightarrow> layer_norm_weights \<Rightarrow> tensor \<Rightarrow> tensor" where
  "LayerNormalization epsilon w x =
     (let n = last (shape x);
          channel = (\<lambda>idx c. elems x (butlast idx @ [c]));
          mean = (\<lambda>idx. (\<Sum>c<n. channel idx c) / real n);
          variance = (\<lambda>idx. (\<Sum>c<n. (channel idx c - mean idx)\<^sup>2) / real n)
      in \<lparr>shape = shape x,
          elems = (\<lambda>idx. (elems x idx - mean idx) / sqrt (variance idx + epsilon)
                          * gamma w (last idx) + beta w (last idx))\<rparr>)"

subsection \<open>Conv2D\<close>

datatype padding = VALID | SAME

record conv2d_layer =
  filters :: nat
  kernel_size :: "nat \<times> nat"
  strides :: "nat \<times> nat"
  padding :: padding
  activation :: "real \<Rightarrow> real"
  use_bias :: bool

record conv2d_weights =
  kernel :: "nat \<Rightarrow> nat \<Rightarrow> nat \<Rightarrow> nat \<Rightarrow> real"
  bias :: "nat \<Rightarrow> real"

text \<open>Output length of one spatial axis (\<^verbatim>\<open>conv_output_length\<close> of Keras) and the number of
  zero rows padded in front of the axis. The layer cannot be built on an input without
  channels, with no filters, or with a kernel or stride of 0, nor, without padding, on an
  input smaller than the kernel.\<close>

definition conv_output_length :: "nat \<Rightarrow> nat \<Rightarrow> padding \<Rightarrow> nat \<Rightarrow> nat" where
  "conv_output_length n k p s =
     (case p of SAME \<Rightarrow> (n + s - 1) div s | VALID \<Rightarrow> (n - k + s) div s)"

definition pad_before :: "nat \<Rightarrow> nat \<Rightarrow> padding \<Rightarrow> nat \<Rightarrow> nat" where
  "pad_before n k p s =
     (case p of VALID \<Rightarrow> 0
      | SAME \<Rightarrow> ((conv_output_length n k SAME s - 1) * s + k - n) div 2)"

definition read_padded :: "tensor \<Rightarrow> nat \<Rightarrow> int \<Rightarrow> int \<Rightarrow> nat \<Rightarrow> real" where
  "read_padded x b i j c =
     (if 0 \<le> i \<and> i < int (shape x ! 1) \<and> 0 \<le> j \<and> j < int (shape x ! 2)
      then elems x [b, nat i, nat j, c] else 0)"

definition conv2d_entry :: "conv2d_layer \<Rightarrow> conv2d_weights \<Rightarrow> tensor \<Rightarrow> nat list \<Rightarrow> real" where
  "conv2d_entry l w x idx =
     (let (kh, kw) = kernel_size l; (sh, sw) = strides l;
          pt = pad_before (shape x ! 1) kh (padding l) sh;
          pl = pad_before (shape x ! 2) kw (padding l) sw;
          b = idx ! 0; i = idx ! 1; j = idx ! 2; f = idx ! 3
      in activation l
           ((\<Sum>di<kh. \<Sum>dj<kw. \<Sum>c<shape x ! 3.
               read_padded x b (int (i * sh + di) - int pt) (int (j * sw + dj) - int pl) c
                 * kernel w di dj c f)
            + (if use_bias l then bias w f else 0)))"

definition Conv2D :: "conv2d_layer \<Rightarrow> conv2d_weights \<Rightarrow> tensor \<Rightarrow> error + tensor" where
  "Conv2D l w x =
     (let (kh, kw) = kernel_size l; (sh, sw) = strides l in
      if length (shape x) \<noteq> 4 \<or> shape x ! 3 = 0 \<or> filters l = 0
         \<or> kh = 0 \<or> kw = 0 \<or> sh = 0 \<or> sw = 0
         \<or> (padding l = VALID \<and> (shape x ! 1 < kh \<or> shape x ! 2 < kw))
      then Inl ValueError
      else Inr \<lparr>shape = [shape x ! 0,
                         conv_output_length (shape x ! 1) kh (padding l) sh,
                         conv_output_length (shape x ! 2) kw (padding l) sw,
                         filters l],
                elems = conv2d_entry l w x\<rparr>)"

subsection \<open>Reshape, Permute, Sequential\<close>

text \<open>Row-major position of a multi-index, and back.\<close>

fun ravel :: "nat list \<Rightarrow> nat list \<Rightarrow> nat" where
  "ravel (d # ds) (i # is) = i * prod_list ds + ravel ds is"
| "ravel _ _ = 0"

fun unravel :: "nat list \<Rightarrow> nat \<Rightarrow> nat list" where
  "unravel [] k = []"
| "unravel (d # ds) k = (k div prod_list ds) # unravel ds (k mod prod_list ds)"

text \<open>\<^verbatim>\<open>Reshape(target_shape)\<close>: the batch axis stays; at most one entry of the target is
  \<^verbatim>\<open>-1\<close> and is inferred; the sizes must agree.\<close>

definition Reshape :: "int list \<Rightarrow> tensor \<Rightarrow> error + tensor" where
  "Reshape target_shape x =
     (case shape x of [] \<Rightarrow> Inl ValueError
      | b # dims \<Rightarrow>
         (let input_size = prod_list dims;
              known = nat (prod_list (filter (\<lambda>d. d \<noteq> - 1) target_shape));
              unknowns = length (filter (\<lambda>d. d = - 1) target_shape);
              out = map (\<lambda>d. if d = - 1 then input_size div known else nat d) target_shape
          in if 1 < unknowns then Inl ValueError
             else if unknowns = 1 \<and> (known = 0 \<or> input_size mod known \<noteq> 0) then Inl ValueError
             else if unknowns = 0 \<and> input_size \<noteq> known then Inl ValueError
             else Inr \<lparr>shape = b # out,
                       elems = (\<lambda>idx. elems x (hd idx # unravel dims (ravel out (tl idx))))\<rparr>))"

primrec position :: "nat \<Rightarrow> nat list \<Rightarrow> nat" where
  "position a [] = 0"
| "position a (d # ds) = (if d = a then 0 else Suc (position a ds))"

text \<open>\<^verbatim>\<open>Permute(dims)\<close>: axis \<open>i\<close> of the output is axis \<open>dims[i]\<close> of the input (axes counted
  from 1, the batch axis apart).\<close>

definition Permute :: "nat list \<Rightarrow> tensor \<Rightarrow> error + tensor" where
  "Permute dims x =
     (if sort dims \<noteq> [1..<Suc (length dims)] \<or> length (shape x) \<noteq> Suc (length dims)
      then Inl ValueError
      else Inr \<lparr>shape = hd (shape x) # map (\<lambda>d. shape x ! d) dims,
                elems = (\<lambda>idx. elems x
                   (hd idx # map (\<lambda>a. idx ! Suc (position (Suc a) dims)) [0..<length dims]))\<rparr>)"

fun Sequential :: "(tensor \<Rightarrow> error + tensor) list \<Rightarrow> tensor \<Rightarrow> error + tensor" where
  "Sequential [] x = Inr x"
| "Sequential (l # ls) x = and_then (l x) (Sequential ls)"

subsection \<open>Broadcasting arithmetic and reductions\<close>

fun broadcast_rev :: "nat list \<Rightarrow> nat list \<Rightarrow> error + nat list" where
  "broadcast_rev [] ys = Inr ys"
| "broadcast_rev xs [] = Inr xs"
| "broadcast_rev (x # xs) (y # ys) =
     (if x = y \<or> y = 1 then and_then (broadcast_rev xs ys) (\<lambda>r. Inr (x # r))
      else if x = 1 then and_then (broadcast_rev xs ys) (\<lambda>r. Inr (y # r))
      else Inl ValueError)"

definition broadcast_shapes :: "nat list \<Rightarrow> nat list \<Rightarrow> error + nat list" where
  "broadcast_shapes s t = and_then (broadcast_rev (rev s) (rev t)) (\<lambda>r. Inr (rev r))"

text \<open>The index an operand of shape \<open>s\<close> is read at, for the output index \<open>idx\<close>: the trailing
  axes, with 0 on every axis of size 1.\<close>

definition broadcast_index :: "nat list \<Rightarrow> nat list \<Rightarrow> nat list" where
  "broadcast_index s idx =
     map2 (\<lambda>d i. if d = 1 then 0 else i) s (drop (length idx - length s) idx)"

definition elementwise :: "(real \<Rightarrow> real \<Rightarrow> real) \<Rightarrow> tensor \<Rightarrow> tensor \<Rightarrow> error + tensor" where
  "elementwise f x y =
     and_then (broadcast_shapes (shape x) (shape y))
       (\<lambda>s. Inr \<lparr>shape = s,
                 elems = (\<lambda>idx. f (elems x (broadcast_index (shape x) idx))
                                   (elems y (broadcast_index (shape y) idx)))\<rparr>)"

definition multiply :: "tensor \<Rightarrow> tensor \<Rightarrow> error + tensor" where
  "multiply = elementwise (*)"

definition Add :: "tensor \<Rightarrow> tensor \<Rightarrow> error + tensor" where
  "Add = elementwise (+)"

text \<open>\<^verbatim>\<open>x[..., tf.newaxis]\<close>.\<close>

definition newaxis_last :: "tensor \<Rightarrow> tensor" where
  "newaxis_last x = \<lparr>shape = shape x @ [1], elems = (\<lambda>idx. elems x (butlast idx))\<rparr>"

text \<open>\<^verbatim>\<open>tf.reduce_mean(x, axis)\<close>. Over an axis of length 0 every entry of the result is
  0 / 0, which the program computes as NaN: when the result has entries at all, the
  outcome is \<open>NotANumber\<close>.\<close>

definition reduce_mean :: "nat \<Rightarrow> tensor \<Rightarrow> error + tensor" where
  "reduce_mean axis x =
     (if length (shape x) \<le> axis then Inl ValueError
      else if shape x ! axis = 0
              \<and> prod_list (take axis (shape x) @ drop (Suc axis) (shape x)) \<noteq> 0
      then Inl NotANumber
      else Inr \<lparr>shape = take axis (shape x) @ drop (Suc axis) (shape x),
                elems = (\<lambda>idx. (\<Sum>p<shape x ! axis. elems x (take axis idx @ [p] @ drop axis idx))
                                / real (shape x ! axis))\<rparr>)"

section \<open>The TokenLearner module\<close>

record token_learner_weights =
  tl_norm :: layer_norm_weights
  tl_conv1 :: conv2d_weights
  tl_conv2 :: conv2d_weights
  tl_conv3 :: conv2d_weights
  tl_conv4 :: conv2d_weights

definition LAYER_NORM_EPS :: real where
  "LAYER_NORM_EPS = 1 / 10 ^ 6"

text \<open>The \<^verbatim>\<open>keras.Sequential\<close> of \<^verbatim>\<open>token_learner\<close>: three 3x3 convolutions with gelu, a
  fourth with sigmoid, then Reshape and Permute; it is applied to the normalised input.\<close>

definition attention_maps :: "token_learner_weights \<Rightarrow> nat \<Rightarrow> tensor \<Rightarrow> error + tensor" where
  "attention_maps w number_of_tokens x =
     Sequential
       [Conv2D \<lparr>filters = number_of_tokens, kernel_size = (3, 3), strides = (1, 1),
                padding = SAME, activation = gelu, use_bias = False\<rparr> (tl_conv1 w),
        Conv2D \<lparr>filters = number_of_tokens, kernel_size = (3, 3), strides = (1, 1),
                padding = SAME, activation = gelu, use_bias = False\<rparr> (tl_conv2 w),
        Conv2D \<lparr>filters = number_of_tokens, kernel_size = (3, 3), strides = (1, 1),
                padding = SAME, activation = gelu, use_bias = False\<rparr> (tl_conv3 w),
        Conv2D \<lparr>filters = number_of_tokens, kernel_size = (3, 3), strides = (1, 1),
                padding = SAME, activation = sigmoid, use_bias = False\<rparr> (tl_conv4 w),
        Reshape [- 1, int number_of_tokens],
        Permute [2, 1]]
       x"

definition token_learner :: "token_learner_weights \<Rightarrow> tensor \<Rightarrow> nat \<Rightarrow> error + tensor" where
  "token_learner w inputs number_of_tokens =
     (let x = LayerNormalization LAYER_NORM_EPS (tl_norm w) inputs in
      and_then (attention_maps w number_of_tokens x) (\<lambda>attention_maps.
      let num_filters = last (shape inputs) in
      and_then (Reshape [1, - 1, int num_filters] inputs) (\<lambda>inputs.
      and_then (multiply (newaxis_last attention_maps) inputs) (\<lambda>attended_inputs.
      reduce_mean 2 attended_inputs))))"

section \<open>Randomness and the stochastic layers\<close>

text \<open>
  A source of randomness: one stream of uniform samples per stochastic layer, read at an
  index. The stochastic layers consult it in training mode only.
\<close>

type_synonym rng = "nat \<Rightarrow> nat list \<Rightarrow> real"

definition Dropout :: "real \<Rightarrow> bool \<Rightarrow> (nat list \<Rightarrow> real) \<Rightarrow> tensor \<Rightarrow> tensor" where
  "Dropout rate training stream x =
     (if training
      then \<lparr>shape = shape x,
            elems = (\<lambda>idx. if stream idx < rate then 0 else elems x idx / (1 - rate))\<rparr>
      else x)"

subsection \<open>The augmentation layers\<close>

definition Rescaling :: "real \<Rightarrow> tensor \<Rightarrow> tensor" where
  "Rescaling scale x = \<lparr>shape = shape x, elems = (\<lambda>idx. elems x idx * scale)\<rparr>"

text \<open>Bilinear resizing with half-pixel centres (\<^verbatim>\<open>tf.image.resize\<close>): the source coordinate
  of an output position, its two neighbours and the interpolation weight.\<close>

definition source_coordinate :: "nat \<Rightarrow> nat \<Rightarrow> nat \<Rightarrow> real" where
  "source_coordinate in_size out_size i =
     (real i + 1 / 2) * (real in_size / real out_size) - 1 / 2"

definition resize_bilinear :: "nat \<Rightarrow> nat \<Rightarrow> tensor \<Rightarrow> tensor" where
  "resize_bilinear height width x =
     \<lparr>shape = [shape x ! 0, height, width, shape x ! 3],
      elems = (\<lambda>idx.
        let b = idx ! 0; c = idx ! 3;
            sy = source_coordinate (shape x ! 1) height (idx ! 1);
            sx = source_coordinate (shape x ! 2) width (idx ! 2);
            top = nat (max \<lfloor>sy\<rfloor> 0); bottom = nat (min \<lceil>sy\<rceil> (int (shape x ! 1) - 1));
            left = nat (max \<lfloor>sx\<rfloor> 0); right = nat (min \<lceil>sx\<rceil> (int (shape x ! 2) - 1));
            ly = sy - real_of_int \<lfloor>sy\<rfloor>; lx = sx - real_of_int \<lfloor>sx\<rfloor>;
            upper = elems x [b, top, left, c]
                    + (elems x [b, top, right, c] - elems x [b, top, left, c]) * lx;
            lower = elems x [b, bottom, left, c]
                    + (elems x [b, bottom, right, c] - elems x [b, bottom, left, c]) * lx
        in upper + (lower - upper) * ly)\<rparr>"

definition Resizing :: "nat \<Rightarrow> nat \<Rightarrow> tensor \<Rightarrow> tensor" where
  "Resizing height width x = resize_bilinear height width x"

definition crop_to_bounding_box :: "nat \<Rightarrow> nat \<Rightarrow> nat \<Rightarrow> nat \<Rightarrow> tensor \<Rightarrow> tensor" where
  "crop_to_bounding_box h_start w_start height width x =
     \<lparr>shape = [shape x ! 0, height, width, shape x ! 3],
      elems = (\<lambda>idx. elems x [idx ! 0, idx ! 1 + h_start, idx ! 2 + w_start, idx ! 3])\<rparr>"

text \<open>\<^verbatim>\<open>smart_resize\<close>: the largest centred window of the target aspect ratio, resized.\<close>

definition smart_resize :: "nat \<Rightarrow> nat \<Rightarrow> tensor \<Rightarrow> tensor" where
  "smart_resize target_height target_width x =
     (let height = shape x ! 1; width = shape x ! 2;
          crop_height = min height (width * target_height div target_width);
          crop_width = min width (height * target_width div target_height);
          crop_box_hstart = (height - crop_height) div 2;
          crop_box_wstart = (width - crop_width) div 2
      in resize_bilinear target_height target_width
           (crop_to_bounding_box crop_box_hstart crop_box_wstart crop_height crop_width x))"

text \<open>\<^verbatim>\<open>RandomCrop\<close>: a window at a random offset when training on an image that is large
  enough, the deterministic \<^verbatim>\<open>smart_resize\<close> otherwise.\<close>

definition RandomCrop :: "nat \<Rightarrow> nat \<Rightarrow> bool \<Rightarrow> (nat list \<Rightarrow> real) \<Rightarrow> tensor \<Rightarrow> tensor" where
  "RandomCrop height width training stream x =
     (if training \<and> height \<le> shape x ! 1 \<and> width \<le> shape x ! 2
      then (let h_diff = shape x ! 1 - height; w_diff = shape x ! 2 - width;
                h_start = nat \<lfloor>stream [0] * 2 ^ 31\<rfloor> mod (h_diff + 1);
                w_start = nat \<lfloor>stream [1] * 2 ^ 31\<rfloor> mod (w_diff + 1)
            in crop_to_bounding_box h_start w_start height width x)
      else smart_resize height width x)"

text \<open>\<^verbatim>\<open>RandomFlip("horizontal")\<close>: when training, each image of the batch is mirrored with
  probability one half.\<close>

definition RandomFlip_horizontal :: "bool \<Rightarrow> (nat list \<Rightarrow> real) \<Rightarrow> tensor \<Rightarrow> tensor" where
  "RandomFlip_horizontal training stream x =
     (if training
      then \<lparr>shape = shape x,
            elems = (\<lambda>idx. if stream [idx ! 0] < 1 / 2
                            then elems x [idx ! 0, idx ! 1, shape x ! 2 - 1 - idx ! 2, idx ! 3]
                            else elems x idx)\<rparr>
      else x)"

section \<open>Dense and MultiHeadAttention\<close>

record dense_layer =
  units :: nat
  dense_activation :: "nat \<Rightarrow> (nat \<Rightarrow> real) \<Rightarrow> nat \<Rightarrow> real"

record dense_weights =
  dense_kernel :: "nat \<Rightarrow> nat \<Rightarrow> real"
  dense_bias :: "nat \<Rightarrow> real"

text \<open>An activation of a Dense layer sees the whole vector of the \<open>n\<close> pre-activations:
  gelu acts on each entry, softmax normalises over the vector.\<close>

definition pointwise :: "(real \<Rightarrow> real) \<Rightarrow> nat \<Rightarrow> (nat \<Rightarrow> real) \<Rightarrow> nat \<Rightarrow> real" where
  "pointwise f n z u = f (z u)"

definition softmax :: "nat \<Rightarrow> (nat \<Rightarrow> real) \<Rightarrow> nat \<Rightarrow> real" where
  "softmax n z u = exp (z u) / (\<Sum>v<n. exp (z v))"

definition Dense :: "dense_layer \<Rightarrow> dense_weights \<Rightarrow> tensor \<Rightarrow> tensor" where
  "Dense l w x =
     \<lparr>shape = butlast (shape x) @ [units l],
      elems = (\<lambda>idx. dense_activation l (units l)
                 (\<lambda>u. (\<Sum>d<last (shape x). elems x (butlast idx @ [d]) * dense_kernel w d u)
                       + dense_bias w u)
                 (last idx))\<rparr>"

record mha_layer =
  num_heads :: nat
  key_dim :: nat
  dropout :: real

record mha_weights =
  query_kernel :: "nat \<Rightarrow> nat \<Rightarrow> nat \<Rightarrow> real"
  query_bias :: "nat \<Rightarrow> nat \<Rightarrow> real"
  key_kernel :: "nat \<Rightarrow> nat \<Rightarrow> nat \<Rightarrow> real"
  key_bias :: "nat \<Rightarrow> nat \<Rightarrow> real"
  value_kernel :: "nat \<Rightarrow> nat \<Rightarrow> nat \<Rightarrow> real"
  value_bias :: "nat \<Rightarrow> nat \<Rightarrow> real"
  output_kernel :: "nat \<Rightarrow> nat \<Rightarrow> nat \<Rightarrow> real"
  output_bias :: "nat \<Rightarrow> real"

text \<open>The projection of a sequence \<open>(B, N, D)\<close> onto the heads: \<open>(B, N, num_heads, key_dim)\<close>;
  \<^verbatim>\<open>key_dim\<close> is the width of each head.\<close>

definition project_heads ::
  "(nat \<Rightarrow> nat \<Rightarrow> nat \<Rightarrow> real) \<Rightarrow> (nat \<Rightarrow> nat \<Rightarrow> real) \<Rightarrow> mha_layer \<Rightarrow> tensor \<Rightarrow> tensor" where
  "project_heads kern b l x =
     \<lparr>shape = [shape x ! 0, shape x ! 1, num_heads l, key_dim l],
      elems = (\<lambda>idx. (\<Sum>d<shape x ! 2. elems x [idx ! 0, idx ! 1, d] * kern d (idx ! 2) (idx ! 3))
                      + b (idx ! 2) (idx ! 3))\<rparr>"

definition mha_query :: "mha_layer \<Rightarrow> mha_weights \<Rightarrow> tensor \<Rightarrow> tensor" where
  "mha_query l w query = project_heads (query_kernel w) (query_bias w) l query"

definition mha_key :: "mha_layer \<Rightarrow> mha_weights \<Rightarrow> tensor \<Rightarrow> tensor" where
  "mha_key l w value = project_heads (key_kernel w) (key_bias w) l value"

definition mha_value :: "mha_layer \<Rightarrow> mha_weights \<Rightarrow> tensor \<Rightarrow> tensor" where
  "mha_value l w value = project_heads (value_kernel w) (value_bias w) l value"

text \<open>The attention weights \<open>(B, num_heads, T, S)\<close>: scaled dot products of queries and keys,
  softmax over the attended positions, dropout. No attention mask is passed. Over the reals
  a softmax is never 0; in floating point it can underflow to 0, so nothing below rests on
  the sign of a weight.\<close>

definition attention_logit :: "mha_layer \<Rightarrow> mha_weights \<Rightarrow> tensor \<Rightarrow> tensor \<Rightarrow> nat list \<Rightarrow> nat \<Rightarrow> real" where
  "attention_logit l w query value idx s =
     (\<Sum>e<key_dim l. elems (mha_query l w query) [idx ! 0, idx ! 2, idx ! 1, e]
                        * (1 / sqrt (real (key_dim l)))
                        * elems (mha_key l w value) [idx ! 0, s, idx ! 1, e])"

definition attention_scores ::
  "mha_layer \<Rightarrow> mha_weights \<Rightarrow> bool \<Rightarrow> (nat list \<Rightarrow> real) \<Rightarrow> tensor \<Rightarrow> tensor \<Rightarrow> tensor" where
  "attention_scores l w training stream query value =
     Dropout (dropout l) training stream
       \<lparr>shape = [shape query ! 0, num_heads l, shape query ! 1, shape value ! 1],
        elems = (\<lambda>idx. softmax (shape value ! 1) (attention_logit l w query value idx) (idx ! 3))\<rparr>"

definition MultiHeadAttention ::
  "mha_layer \<Rightarrow> mha_weights \<Rightarrow> bool \<Rightarrow> (nat list \<Rightarrow> real) \<Rightarrow> tensor \<Rightarrow> tensor \<Rightarrow> error + tensor" where
  "MultiHeadAttention l w training stream query value =
     (if length (shape query) \<noteq> 3 \<or> length (shape value) \<noteq> 3 \<or> shape query ! 0 \<noteq> shape value ! 0
      then Inl ValueError
      else Inr \<lparr>shape = [shape query ! 0, shape query ! 1, shape query ! 2],
                elems = (\<lambda>idx.
                  (\<Sum>h<num_heads l. \<Sum>e<key_dim l.
                     (\<Sum>s<shape value ! 1.
                        elems (attention_scores l w training stream query value) [idx ! 0, h, idx ! 1, s]
                          * elems (mha_value l w value) [idx ! 0, s, h, e])
                     * output_kernel w h e (idx ! 2))
                  + output_bias w (idx ! 2))\<rparr>)"

section \<open>The notebook\<close>

subsection \<open>Hyperparameters\<close>

record config =
  INPUT_SHAPE :: "nat list"
  NUM_CLASSES :: nat
  IMAGE_SIZE :: nat
  PATCH_SIZE :: nat
  PROJECTION_DIM :: nat
  NUM_HEADS :: nat
  NUM_LAYERS :: nat
  NUM_TOKENS :: nat

definition NUM_PATCHES :: "config \<Rightarrow> nat" where
  "NUM_PATCHES cfg = (IMAGE_SIZE cfg div PATCH_SIZE cfg) ^ 2"

definition MLP_UNITS :: "config \<Rightarrow> nat list" where
  "MLP_UNITS cfg = [PROJECTION_DIM cfg * 2, PROJECTION_DIM cfg]"

text \<open>The values the notebook sets.\<close>

definition notebook :: config where
  "notebook = \<lparr>INPUT_SHAPE = [32, 32, 3], NUM_CLASSES = 10, IMAGE_SIZE = 48, PATCH_SIZE = 6,
                PROJECTION_DIM = 128, NUM_HEADS = 4, NUM_LAYERS = 4, NUM_TOKENS = 4\<rparr>"

subsection \<open>Data augmentation\<close>

definition data_augmentation :: "config \<Rightarrow> bool \<Rightarrow> rng \<Rightarrow> tensor \<Rightarrow> tensor" where
  "data_augmentation cfg training rng x =
     RandomFlip_horizontal training (rng 1)
       (RandomCrop (IMAGE_SIZE cfg) (IMAGE_SIZE cfg) training (rng 0)
         (Resizing (INPUT_SHAPE cfg ! 0 + 20) (INPUT_SHAPE cfg ! 0 + 20)
           (Rescaling (1 / 255) x)))"

subsection \<open>Positional embedding\<close>

text \<open>\<^verbatim>\<open>Embedding(input_dim, output_dim)\<close> applied to \<^verbatim>\<open>tf.range(num_patches)\<close> is the table
  itself; it is added to the patches with broadcasting over the batch.\<close>

definition Embedding_range :: "nat \<Rightarrow> nat \<Rightarrow> (nat \<Rightarrow> nat \<Rightarrow> real) \<Rightarrow> error + tensor" where
  "Embedding_range input_dim output_dim table =
     (if input_dim = 0 \<or> output_dim = 0 then Inl ValueError
      else Inr \<lparr>shape = [input_dim, output_dim], elems = (\<lambda>idx. table (idx ! 0) (idx ! 1))\<rparr>)"

definition position_embedding ::
  "(nat \<Rightarrow> nat \<Rightarrow> real) \<Rightarrow> tensor \<Rightarrow> nat \<Rightarrow> nat \<Rightarrow> error + tensor" where
  "position_embedding table projected_patches num_patches projection_dim =
     and_then (Embedding_range num_patches projection_dim table) (\<lambda>encoded_positions.
     elementwise (+) projected_patches encoded_positions)"

subsection \<open>MLP and Transformer block\<close>

text \<open>\<^verbatim>\<open>mlp\<close>: for each entry of \<^verbatim>\<open>hidden_units\<close> a Dense layer with gelu, then Dropout. The
  layers are numbered in the order of the loop.\<close>

fun mlp :: "(nat \<Rightarrow> dense_weights) \<Rightarrow> bool \<Rightarrow> rng \<Rightarrow> tensor \<Rightarrow> real \<Rightarrow> nat list \<Rightarrow> tensor" where
  "mlp w training rng x dropout_rate [] = x"
| "mlp w training rng x dropout_rate (n # hidden_units) =
     mlp (\<lambda>i. w (Suc i)) training (\<lambda>s. rng (Suc s))
       (Dropout dropout_rate training (rng 0)
          (Dense \<lparr>units = n, dense_activation = pointwise gelu\<rparr> (w 0) x))
       dropout_rate hidden_units"

record transformer_weights =
  norm1 :: layer_norm_weights
  attention :: mha_weights
  norm2 :: layer_norm_weights
  mlp_dense :: "nat \<Rightarrow> dense_weights"

definition transformer_attention :: "config \<Rightarrow> mha_layer" where
  "transformer_attention cfg =
     \<lparr>num_heads = NUM_HEADS cfg, key_dim = PROJECTION_DIM cfg, dropout = 0.1\<rparr>"

text \<open>The first half of \<^verbatim>\<open>transformer\<close>: layer normalisation 1, the multi-head self-attention
  with the normalised sequence as query and as value, and skip connection 1.\<close>

definition self_attention ::
  "config \<Rightarrow> transformer_weights \<Rightarrow> bool \<Rightarrow> rng \<Rightarrow> tensor \<Rightarrow> error + tensor" where
  "self_attention cfg w training rng encoded_patches =
     (let x1 = LayerNormalization LAYER_NORM_EPS (norm1 w) encoded_patches in
      and_then (MultiHeadAttention (transformer_attention cfg) (attention w) training (rng 0) x1 x1)
        (\<lambda>attention_output.
      Add attention_output encoded_patches))"

text \<open>The whole block: then layer normalisation 2, the MLP and skip connection 2.\<close>

definition transformer ::
  "config \<Rightarrow> transformer_weights \<Rightarrow> bool \<Rightarrow> rng \<Rightarrow> tensor \<Rightarrow> error + tensor" where
  "transformer cfg w training rng encoded_patches =
     and_then (self_attention cfg w training rng encoded_patches) (\<lambda>x2.
     let x3 = LayerNormalization LAYER_NORM_EPS (norm2 w) x2;
         x4 = mlp (mlp_dense w) training (\<lambda>s. rng (Suc s)) x3 0.1 (MLP_UNITS cfg)
     in Add x4 x2)"

subsection \<open>The ViT classifier with the TokenLearner\<close>

record vit_weights =
  patch_projection :: conv2d_weights
  position_table :: "nat \<Rightarrow> nat \<Rightarrow> real"
  block :: "nat \<Rightarrow> transformer_weights"
  learner :: token_learner_weights
  final_norm :: layer_norm_weights
  classifier :: dense_weights

text \<open>\<^verbatim>\<open>int(math.sqrt(hh))\<close>: the square root rounded down, computed by search from below
  (\<open>int_sqrt_floor\<close> below shows that it is the floor of the real square root).\<close>

primrec int_sqrt :: "nat \<Rightarrow> nat" where
  "int_sqrt 0 = 0"
| "int_sqrt (Suc n) = (if Suc (int_sqrt n) * Suc (int_sqrt n) \<le> Suc n then Suc (int_sqrt n) else int_sqrt n)"

text \<open>Create patches and project them: a convolution whose kernel and stride are the patch
  size, without padding, then the two spatial axes are merged.\<close>

definition create_patches :: "config \<Rightarrow> conv2d_weights \<Rightarrow> tensor \<Rightarrow> error + tensor" where
  "create_patches cfg wt augmented =
     and_then
       (Conv2D \<lparr>filters = PROJECTION_DIM cfg, kernel_size = (PATCH_SIZE cfg, PATCH_SIZE cfg),
                strides = (PATCH_SIZE cfg, PATCH_SIZE cfg), padding = VALID,
                activation = (\<lambda>v. v), use_bias = True\<rparr> wt augmented)
       (\<lambda>projected_patches.
          let h = shape projected_patches ! 1; w = shape projected_patches ! 2;
              c = shape projected_patches ! 3
          in Reshape [int (h * w), int c] projected_patches)"

text \<open>The TokenLearner step in the middle of the stack: the sequence becomes a square grid of
  side \<^verbatim>\<open>int(math.sqrt(hh))\<close> and goes through \<^verbatim>\<open>token_learner\<close>.\<close>

definition learn_tokens :: "token_learner_weights \<Rightarrow> nat \<Rightarrow> tensor \<Rightarrow> error + tensor" where
  "learn_tokens w token_learner_units encoded_patches =
     (case shape encoded_patches of
        [b, hh, c] \<Rightarrow>
          (let h = int_sqrt hh in
           and_then (Reshape [int h, int h, int c] encoded_patches) (\<lambda>encoded_patches.
           token_learner w encoded_patches token_learner_units))
      | _ \<Rightarrow> Inl ValueError)"

text \<open>The loop over the layers; \<open>encoder_blocks \<dots> n\<close> is the sequence after the iterations
  \<open>0, \<dots>, n - 1\<close>. Block \<open>i\<close> draws from the streams \<open>3 + 3 * i, \<dots>\<close>.\<close>

primrec encoder_blocks ::
  "config \<Rightarrow> vit_weights \<Rightarrow> bool \<Rightarrow> nat \<Rightarrow> bool \<Rightarrow> rng \<Rightarrow> nat \<Rightarrow> tensor \<Rightarrow> error + tensor" where
  "encoder_blocks cfg w use_token_learner token_learner_units training rng 0 x = Inr x"
| "encoder_blocks cfg w use_token_learner token_learner_units training rng (Suc i) x =
     and_then (encoder_blocks cfg w use_token_learner token_learner_units training rng i x)
       (\<lambda>encoded_patches.
     and_then (transformer cfg (block w i) training (\<lambda>s. rng (3 + 3 * i + s)) encoded_patches)
       (\<lambda>encoded_patches.
     if use_token_learner \<and> i = NUM_LAYERS cfg div 2
     then learn_tokens (learner w) token_learner_units encoded_patches
     else Inr encoded_patches))"

text \<open>Everything before the loop: input, augmentation, patches, positions, dropout.\<close>

definition embed_patches :: "config \<Rightarrow> vit_weights \<Rightarrow> bool \<Rightarrow> rng \<Rightarrow> tensor \<Rightarrow> error + tensor" where
  "embed_patches cfg w training rng inputs =
     (if PATCH_SIZE cfg = 0 then Inl ZeroDivisionError
      else if shape inputs = [] \<or> tl (shape inputs) \<noteq> INPUT_SHAPE cfg \<or> length (INPUT_SHAPE cfg) \<noteq> 3
      then Inl ValueError
      else
        (let augmented = data_augmentation cfg training rng inputs in
         and_then (create_patches cfg (patch_projection w) augmented) (\<lambda>projected_patches.
         and_then (position_embedding (position_table w) projected_patches
                     (NUM_PATCHES cfg) (PROJECTION_DIM cfg)) (\<lambda>encoded_patches.
         Inr (Dropout 0.1 training (rng 2) encoded_patches)))))"

text \<open>Everything after the loop: normalisation, average over the tokens, softmax head.\<close>

definition classify :: "config \<Rightarrow> vit_weights \<Rightarrow> tensor \<Rightarrow> error + tensor" where
  "classify cfg w encoded_patches =
     (let representation = LayerNormalization LAYER_NORM_EPS (final_norm w) encoded_patches in
      and_then (reduce_mean 1 representation) (\<lambda>representation.
      Inr (Dense \<lparr>units = NUM_CLASSES cfg, dense_activation = softmax\<rparr> (classifier w)
             representation)))"

text \<open>The model \<^verbatim>\<open>create_vit_classifier\<close> returns, applied to a batch.\<close>

definition create_vit_classifier ::
  "config \<Rightarrow> vit_weights \<Rightarrow> bool \<Rightarrow> nat \<Rightarrow> bool \<Rightarrow> rng \<Rightarrow> tensor \<Rightarrow> error + tensor" where
  "create_vit_classifier cfg w use_token_learner token_learner_units training rng inputs =
     and_then (embed_patches cfg w training rng inputs) (\<lambda>encoded_patches.
     and_then (encoder_blocks cfg w use_token_learner token_learner_units training rng
                 (NUM_LAYERS cfg) encoded_patches) (\<lambda>encoded_patches.
     classify cfg w encoded_patches))"

section \<open>Concrete weights and inputs\<close>

text \<open>Small instances on which the theorems below are evaluated: convolution kernels that
  are zero, the initial normalisation weights (scale one, shift zero), a 2x2 grid with two
  channels of opposite sign, and a grid that is constant along the channels.\<close>

definition zero_conv :: conv2d_weights where
  "zero_conv = \<lparr>kernel = (\<lambda>di dj c f. 0), bias = (\<lambda>f. 0)\<rparr>"

definition unit_norm :: layer_norm_weights where
  "unit_norm = \<lparr>gamma = (\<lambda>c. 1), beta = (\<lambda>c. 0)\<rparr>"

definition example_learner :: token_learner_weights where
  "example_learner = \<lparr>tl_norm = unit_norm, tl_conv1 = zero_conv, tl_conv2 = zero_conv,
                       tl_conv3 = zero_conv, tl_conv4 = zero_conv\<rparr>"

definition example_grid :: tensor where
  "example_grid = \<lparr>shape = [1, 2, 2, 2],
                   elems = (\<lambda>idx. (real (2 * (idx ! 1) + idx ! 2) + 1)
                                   * (if idx ! 3 = 0 then 1 else - 1))\<rparr>"

definition constant_grid :: tensor where
  "constant_grid = \<lparr>shape = [1, 1, 1, 2], elems = (\<lambda>idx. 3)\<rparr>"

text \<open>Weights that are all zero for the attention and the Dense layers, a Transformer
  block and a classifier built from them, and input batches: one black 32x32 image, one
  image of side 50 for the patch convolution, a sequence of 64 tokens of width 128, and a
  sequence of 8 tokens.\<close>

definition zero_dense :: dense_weights where
  "zero_dense = \<lparr>dense_kernel = (\<lambda>d u. 0), dense_bias = (\<lambda>u. 0)\<rparr>"

definition zero_attention :: mha_weights where
  "zero_attention = \<lparr>query_kernel = (\<lambda>d h e. 0), query_bias = (\<lambda>h e. 0),
                      key_kernel = (\<lambda>d h e. 0), key_bias = (\<lambda>h e. 0),
                      value_kernel = (\<lambda>d h e. 0), value_bias = (\<lambda>h e. 0),
                      output_kernel = (\<lambda>h e d. 0), output_bias = (\<lambda>d. 0)\<rparr>"

definition example_block :: transformer_weights where
  "example_block = \<lparr>norm1 = unit_norm, attention = zero_attention, norm2 = unit_norm,
                     mlp_dense = (\<lambda>i. zero_dense)\<rparr>"

definition example_vit :: vit_weights where
  "example_vit = \<lparr>patch_projection = zero_conv, position_table = (\<lambda>n d. 0),
                   block = (\<lambda>i. example_block), learner = example_learner,
                   final_norm = unit_norm, classifier = zero_dense\<rparr>"

definition black_image :: tensor where
  "black_image = \<lparr>shape = [1, 32, 32, 3], elems = (\<lambda>idx. 0)\<rparr>"


definition tokens_64 :: tensor where
  "tokens_64 = \<lparr>shape = [1, 64, 128], elems = (\<lambda>idx. real (idx ! 1))\<rparr>"

definition tokens_8 :: tensor where
  "tokens_8 = \<lparr>shape = [1, 8, 2], elems = (\<lambda>idx. real (idx ! 1))\<rparr>"

definition tokens_width_1 :: tensor where
  "tokens_width_1 = \<lparr>shape = [1, 64, 1], elems = (\<lambda>idx. real (idx ! 1))\<rparr>"

definition tokens_width_64 :: tensor where
  "tokens_width_64 = \<lparr>shape = [1, 64, 64], elems = (\<lambda>idx. real (idx ! 1))\<rparr>"

section \<open>Properties of the layers\<close>

lemma and_then_Inr [simp]: "and_then (Inr v) f = f v"
  by (simp add: and_then_def)

lemma and_then_Inl [simp]: "and_then (Inl e) f = Inl e"
  by (simp add: and_then_def)

lemma and_then_eq_Inr:
  "and_then m f = Inr y \<longleftrightarrow> (\<exists>v. m = Inr v \<and> f v = Inr y)"
  by (cases m) simp_all

subsection \<open>Flattening the two spatial axes\<close>

lemma flat_div:
  assumes "k < (K::nat)"
  shows "(p * K + k) div (w * K) = p div w"
proof -
  have "(p * K + k) div (K * w) = (p * K + k) div K div w"
    by (rule div_mult2_eq)
  with assms show ?thesis by (simp add: mult.commute)
qed

lemma flat_mod:
  assumes "k < (K::nat)"
  shows "(p * K + k) mod (w * K) = (p mod w) * K + k"
proof -
  have "(p * K + k) mod (K * w) = K * ((p * K + k) div K mod w) + (p * K + k) mod K"
    by (rule mod_mult2_eq)
  with assms show ?thesis by (simp add: mult.commute)
qed

lemma Reshape_flatten:
  assumes "shape x = [B, h, w, K]" "0 < K"
  shows "\<exists>y. Reshape [- 1, int K] x = Inr y \<and> shape y = [B, h * w, K] \<and>
           (\<forall>b p k. k < K \<longrightarrow> elems y [b, p, k] = elems x [b, p div w, p mod w, k])"
  using assms by (simp add: Reshape_def Let_def flat_div flat_mod)

lemma Reshape_flatten_inputs:
  assumes "shape x = [B, h, w, D]" "0 < D"
  shows "\<exists>y. Reshape [1, - 1, int D] x = Inr y \<and> shape y = [B, 1, h * w, D] \<and>
           (\<forall>b p d. d < D \<longrightarrow> elems y [b, 0, p, d] = elems x [b, p div w, p mod w, d])"
  using assms by (simp add: Reshape_def Let_def flat_div flat_mod)

lemma Permute_21:
  assumes "shape x = [B, P, K]"
  shows "Permute [2, 1] x
         = Inr \<lparr>shape = [B, K, P], elems = (\<lambda>idx. elems x [hd idx, idx ! 2, idx ! 1])\<rparr>"
  using assms by (simp add: Permute_def upt_rec numeral_2_eq_2)

subsection \<open>The sigmoid and the convolutions of the TokenLearner\<close>

lemma sigmoid_bounds: "0 < sigmoid x \<and> sigmoid x < 1"
proof -
  have pos: "0 < 1 + exp (- x)" by (simp add: add_pos_pos)
  have "1 / (1 + exp (- x)) < 1"
    by (subst divide_less_eq_1_pos [OF pos]) simp
  moreover have "0 < 1 / (1 + exp (- x))"
    using pos by (rule divide_pos_pos [OF zero_less_one])
  ultimately show ?thesis unfolding sigmoid_def by blast
qed

lemma Conv2D_same_3x3:
  assumes "shape x = [B, h, w, c]" "0 < c" "0 < K"
  shows "\<exists>y. Conv2D \<lparr>filters = K, kernel_size = (3, 3), strides = (1, 1),
                padding = SAME, activation = f, use_bias = ub\<rparr> wt x = Inr y
           \<and> shape y = [B, h, w, K]"
  using assms by (simp add: Conv2D_def conv_output_length_def)

lemma multiply_maps_inputs:
  assumes "shape a = [B, K, P]" "shape g = [B, 1, P, D]"
  shows "\<exists>m. multiply (newaxis_last a) g = Inr m \<and> shape m = [B, K, P, D] \<and>
     (\<forall>b<B. \<forall>k<K. \<forall>p<P. \<forall>d<D.
        elems m [b, k, p, d] = elems a [b, k, p] * elems g [b, 0, p, d])"
  using assms
  by (auto simp add: multiply_def elementwise_def broadcast_shapes_def newaxis_last_def
      broadcast_index_def)

lemma reduce_mean_2:
  assumes "shape m = [B, K, P, D]" "0 < P"
  shows "reduce_mean 2 m = Inr \<lparr>shape = [B, K, D],
     elems = (\<lambda>idx. (\<Sum>p<P. elems m (take 2 idx @ [p] @ drop 2 idx)) / real P)\<rparr>"
  using assms by (simp add: reduce_mean_def)

lemma Conv2D_elems:
  assumes "Conv2D l wt x = Inr y"
  shows "elems y = conv2d_entry l wt x"
  using assms by (auto simp add: Conv2D_def Let_def split: prod.splits if_splits)

lemma conv2d_entry_sigmoid:
  assumes "activation l = sigmoid"
  shows "0 < conv2d_entry l wt x idx \<and> conv2d_entry l wt x idx < 1"
  using assms by (simp add: conv2d_entry_def Let_def sigmoid_bounds split: prod.splits)

lemma Reshape_elems:
  assumes "Reshape t x = Inr y"
  shows "\<exists>g. elems y = (\<lambda>idx. elems x (g idx))"
  using assms by (auto simp add: Reshape_def Let_def split: list.splits if_splits)

lemma Permute_elems:
  assumes "Permute t x = Inr y"
  shows "\<exists>g. elems y = (\<lambda>idx. elems x (g idx))"
  using assms by (auto simp add: Permute_def Let_def split: list.splits if_splits)

subsection \<open>The attention maps\<close>

text \<open>Every entry of the attention maps is an output of the last convolution.\<close>

lemma attention_maps_entry:
  assumes "attention_maps wt K x = Inr A"
  shows "\<exists>y j. elems A idx
           = conv2d_entry \<lparr>filters = K, kernel_size = (3, 3), strides = (1, 1),
                padding = SAME, activation = sigmoid, use_bias = False\<rparr> (tl_conv4 wt) y j"
proof -
  let ?l = "\<lparr>filters = K, kernel_size = (3, 3), strides = (1, 1),
                padding = SAME, activation = sigmoid, use_bias = False\<rparr>"
  from assms obtain y3 y4 y5 where
    y4: "Conv2D ?l (tl_conv4 wt) y3 = Inr y4" and
    y5: "Reshape [- 1, int K] y4 = Inr y5" and
    A: "Permute [2, 1] y5 = Inr A"
    unfolding attention_maps_def Sequential.simps and_then_eq_Inr by auto
  obtain g where g: "elems y5 = (\<lambda>idx. elems y4 (g idx))"
    using Reshape_elems [OF y5] by blast
  obtain g' where g': "elems A = (\<lambda>idx. elems y5 (g' idx))"
    using Permute_elems [OF A] by blast
  have "elems A idx = conv2d_entry ?l (tl_conv4 wt) y3 (g (g' idx))"
    by (simp add: g g' Conv2D_elems [OF y4])
  then show ?thesis by blast
qed

lemma attention_maps_unit_interval:
  assumes "attention_maps wt K x = Inr A"
  shows "0 < elems A idx \<and> elems A idx < 1"
proof -
  obtain y j where "elems A idx
           = conv2d_entry \<lparr>filters = K, kernel_size = (3, 3), strides = (1, 1),
                padding = SAME, activation = sigmoid, use_bias = False\<rparr> (tl_conv4 wt) y j"
    using attention_maps_entry [OF assms] by blast
  then show ?thesis by (simp add: conv2d_entry_sigmoid)
qed

lemma attention_maps_zero_kernel:
  assumes "attention_maps wt K x = Inr A" and "tl_conv4 wt = zero_conv"
  shows "elems A idx = 1 / 2"
proof -
  obtain y j where "elems A idx
           = conv2d_entry \<lparr>filters = K, kernel_size = (3, 3), strides = (1, 1),
                padding = SAME, activation = sigmoid, use_bias = False\<rparr> (tl_conv4 wt) y j"
    using attention_maps_entry [OF assms(1)] by blast
  then show ?thesis
    by (simp add: conv2d_entry_def assms(2) zero_conv_def sigmoid_def)
qed

lemma attention_maps_shape:
  assumes "shape x = [B, h, w, c]" "0 < c" "0 < K"
  shows "\<exists>A. attention_maps wt K x = Inr A \<and> shape A = [B, K, h * w]"
proof -
  let ?l = "\<lambda>f. \<lparr>filters = K, kernel_size = (3, 3), strides = (1, 1),
                padding = SAME, activation = f, use_bias = False\<rparr>"
  obtain y1 where y1: "Conv2D (?l gelu) (tl_conv1 wt) x = Inr y1" "shape y1 = [B, h, w, K]"
    using Conv2D_same_3x3 [OF assms] by blast
  obtain y2 where y2: "Conv2D (?l gelu) (tl_conv2 wt) y1 = Inr y2" "shape y2 = [B, h, w, K]"
    using Conv2D_same_3x3 [OF y1(2) assms(3) assms(3)] by blast
  obtain y3 where y3: "Conv2D (?l gelu) (tl_conv3 wt) y2 = Inr y3" "shape y3 = [B, h, w, K]"
    using Conv2D_same_3x3 [OF y2(2) assms(3) assms(3)] by blast
  obtain y4 where y4: "Conv2D (?l sigmoid) (tl_conv4 wt) y3 = Inr y4" "shape y4 = [B, h, w, K]"
    using Conv2D_same_3x3 [OF y3(2) assms(3) assms(3)] by blast
  obtain y5 where y5: "Reshape [- 1, int K] y4 = Inr y5" "shape y5 = [B, h * w, K]"
    using Reshape_flatten [OF y4(2) assms(3)] by blast
  show ?thesis
    unfolding attention_maps_def Sequential.simps y1(1) y2(1) y3(1) y4(1) y5(1) and_then_Inr
      Permute_21 [OF y5(2)]
    by simp
qed

lemma LayerNormalization_shape [simp]: "shape (LayerNormalization e w x) = shape x"
  by (simp add: LayerNormalization_def Let_def)

subsection \<open>The pooled output of the TokenLearner\<close>

lemma token_learner_pooled:
  assumes "shape inputs = [B, h, w, D]" "0 < h * w" "0 < K" "0 < D"
  obtains A g out where
    "attention_maps wt K (LayerNormalization LAYER_NORM_EPS (tl_norm wt) inputs) = Inr A"
    "shape A = [B, K, h * w]"
    "Reshape [1, - 1, int D] inputs = Inr g"
    "\<And>b p d. d < D \<Longrightarrow> elems g [b, 0, p, d] = elems inputs [b, p div w, p mod w, d]"
    "token_learner wt inputs K = Inr out"
    "shape out = [B, K, D]"
    "\<And>b k d. b < B \<Longrightarrow> k < K \<Longrightarrow> d < D \<Longrightarrow> elems out [b, k, d]
        = (\<Sum>p<h * w. elems A [b, k, p] * elems g [b, 0, p, d]) / real (h * w)"
proof -
  let ?x = "LayerNormalization LAYER_NORM_EPS (tl_norm wt) inputs"
  have "shape ?x = [B, h, w, D]" using assms(1) by simp
  from attention_maps_shape [OF this assms(4) assms(3)]
  obtain A where A: "attention_maps wt K ?x = Inr A" "shape A = [B, K, h * w]" by blast
  obtain g where g: "Reshape [1, - 1, int D] inputs = Inr g" "shape g = [B, 1, h * w, D]"
    "\<forall>b p d. d < D \<longrightarrow> elems g [b, 0, p, d] = elems inputs [b, p div w, p mod w, d]"
    using Reshape_flatten_inputs [OF assms(1) assms(4)] by blast
  obtain m where m: "multiply (newaxis_last A) g = Inr m" "shape m = [B, K, h * w, D]"
    "\<And>b k p d. b < B \<Longrightarrow> k < K \<Longrightarrow> p < h * w \<Longrightarrow> d < D \<Longrightarrow>
        elems m [b, k, p, d] = elems A [b, k, p] * elems g [b, 0, p, d]"
    using multiply_maps_inputs [OF A(2) g(2)] by blast
  let ?out = "\<lparr>shape = [B, K, D],
     elems = (\<lambda>idx. (\<Sum>p<h * w. elems m (take 2 idx @ [p] @ drop 2 idx)) / real (h * w))\<rparr>"
  have tl: "token_learner wt inputs K = Inr ?out"
    unfolding token_learner_def Let_def A(1) and_then_Inr
    using assms(1) g(1) m(1) by (simp add: reduce_mean_2 [OF m(2) assms(2)])
  have "elems ?out [b, k, d]
          = (\<Sum>p<h * w. elems A [b, k, p] * elems g [b, 0, p, d]) / real (h * w)"
    if "b < B" "k < K" "d < D" for b k d
    using m(3) that by simp
  then show thesis
    using that [OF A g(1) _ tl] g(3) by simp
qed

subsection \<open>Means of weighted values\<close>

lemma mean_between:
  fixes f :: "nat \<Rightarrow> real"
  assumes "0 < n" and "\<And>p. p < n \<Longrightarrow> lo \<le> f p \<and> f p \<le> hi"
  shows "lo \<le> (\<Sum>p<n. f p) / real n \<and> (\<Sum>p<n. f p) / real n \<le> hi"
proof -
  have "(\<Sum>p<n. f p) \<le> real (card {..<n}) * hi"
    by (rule sum_bounded_above) (simp add: assms(2))
  moreover have "real (card {..<n}) * lo \<le> (\<Sum>p<n. f p)"
    by (rule sum_bounded_below) (simp add: assms(2))
  ultimately show ?thesis
    using assms(1) by (simp add: field_simps)
qed

lemma scaled_between:
  fixes a v :: real
  assumes "0 \<le> a" "a \<le> 1" "lo \<le> v" "v \<le> hi"
  shows "min 0 lo \<le> a * v \<and> a * v \<le> max 0 hi"
proof (cases "0 \<le> v")
  case True
  then have "0 \<le> a * v" "a * v \<le> v"
    using assms(1,2) by (simp_all add: mult_left_le_one_le)
  then show ?thesis using assms(4) by linarith
next
  case False
  then have "v \<le> 0" by simp
  then have "a * v \<le> 0"
    using assms(1) by (simp add: mult_nonneg_nonpos)
  moreover have "v * 1 \<le> v * a"
    using assms(2) \<open>v \<le> 0\<close> by (rule mult_left_mono_neg)
  ultimately show ?thesis using assms(3) by (simp add: mult.commute)
qed

lemma token_learner_entry:
  assumes "shape inputs = [B, h, w, D]" and "0 < h * w" and "0 < K" and "0 < D"
    and "b < B" and "k < K" and "d < D"
  obtains A out where
    "attention_maps wt K (LayerNormalization LAYER_NORM_EPS (tl_norm wt) inputs) = Inr A"
    "token_learner wt inputs K = Inr out"
    "elems out [b, k, d]
      = (\<Sum>p<h * w. elems A [b, k, p] * elems inputs [b, p div w, p mod w, d]) / real (h * w)"
proof -
  obtain A g out where
    A: "attention_maps wt K (LayerNormalization LAYER_NORM_EPS (tl_norm wt) inputs) = Inr A"
    and "shape A = [B, K, h * w]"
    and "Reshape [1, - 1, int D] inputs = Inr g"
    and g: "\<And>b p d. d < D \<Longrightarrow> elems g [b, 0, p, d] = elems inputs [b, p div w, p mod w, d]"
    and out: "token_learner wt inputs K = Inr out"
    and "shape out = [B, K, D]"
    and mean: "\<And>b k d. b < B \<Longrightarrow> k < K \<Longrightarrow> d < D \<Longrightarrow> elems out [b, k, d]
        = (\<Sum>p<h * w. elems A [b, k, p] * elems g [b, 0, p, d]) / real (h * w)"
    by (rule token_learner_pooled [where wt = wt, OF assms(1-4)]) blast
  have "elems out [b, k, d]
      = (\<Sum>p<h * w. elems A [b, k, p] * elems inputs [b, p div w, p mod w, d]) / real (h * w)"
    using mean [OF assms(5-7)] g [OF assms(7)] by simp
  with A out show thesis by (rule that)
qed

lemma token_learner_entry_between:
  assumes "shape inputs = [B, h, w, D]" and "1 \<le> h * w" and "0 < K" and "0 < D"
    and "b < B" and "k < K" and "d < D"
    and "\<And>p. p < h * w \<Longrightarrow> lo \<le> elems inputs [b, p div w, p mod w, d]
                          \<and> elems inputs [b, p div w, p mod w, d] \<le> hi"
  shows "\<exists>out. token_learner wt inputs K = Inr out
           \<and> min 0 lo \<le> elems out [b, k, d] \<and> elems out [b, k, d] \<le> max 0 hi"
proof -
  obtain A out where
    A: "attention_maps wt K (LayerNormalization LAYER_NORM_EPS (tl_norm wt) inputs) = Inr A" and
    out: "token_learner wt inputs K = Inr out" and
    eq: "elems out [b, k, d]
      = (\<Sum>p<h * w. elems A [b, k, p] * elems inputs [b, p div w, p mod w, d]) / real (h * w)"
    by (rule token_learner_entry [where wt = wt, OF assms(1) _ assms(3-7)])
      (use assms(2) in simp, blast)
  have "min 0 lo \<le> elems A [b, k, p] * elems inputs [b, p div w, p mod w, d]
        \<and> elems A [b, k, p] * elems inputs [b, p div w, p mod w, d] \<le> max 0 hi"
    if "p < h * w" for p
    using attention_maps_unit_interval [OF A, of "[b, k, p]"] assms(8) [OF that]
    by (intro scaled_between) simp_all
  then have "min 0 lo \<le> elems out [b, k, d] \<and> elems out [b, k, d] \<le> max 0 hi"
    unfolding eq using assms(2) by (intro mean_between) simp_all
  with out show ?thesis by blast
qed

lemma example_grid_shape: "shape example_grid = [1, 2, 2, 2]"
  by (simp add: example_grid_def)

subsection \<open>The examples\<close>

lemma example_attention:
  obtains A where
    "attention_maps example_learner 2
       (LayerNormalization LAYER_NORM_EPS (tl_norm example_learner) example_grid) = Inr A"
    "shape A = [1, 2, 4]" "\<And>idx. elems A idx = 1 / 2"
proof -
  have "shape (LayerNormalization LAYER_NORM_EPS (tl_norm example_learner) example_grid)
        = [1, 2, 2, 2]"
    by (simp add: example_grid_shape)
  from attention_maps_shape [OF this, of 2 example_learner]
  obtain A where A: "attention_maps example_learner 2
       (LayerNormalization LAYER_NORM_EPS (tl_norm example_learner) example_grid) = Inr A"
    "shape A = [1, 2, 2 * 2]" by auto
  have "elems A idx = 1 / 2" for idx
    using attention_maps_zero_kernel [OF A(1)] by (simp add: example_learner_def)
  with A show thesis using that by simp
qed

lemma constant_grid_shape: "shape constant_grid = [1, 1, 1, 2]"
  by (simp add: constant_grid_def)

lemma constant_grid_normalised:
  "elems (LayerNormalization LAYER_NORM_EPS (tl_norm example_learner) constant_grid) idx = 0"
  by (simp add: LayerNormalization_def constant_grid_def example_learner_def unit_norm_def Let_def)

lemma constant_grid_tokens:
  obtains A out where
    "attention_maps example_learner 1
       (LayerNormalization LAYER_NORM_EPS (tl_norm example_learner) constant_grid) = Inr A"
    "token_learner example_learner constant_grid 1 = Inr out"
    "elems A [0, 0, 0] = 1 / 2" "elems out [0, 0, 0] = 3 / 2"
proof -
  obtain A out where
    A: "attention_maps example_learner 1
       (LayerNormalization LAYER_NORM_EPS (tl_norm example_learner) constant_grid) = Inr A" and
    out: "token_learner example_learner constant_grid 1 = Inr out" and
    eq: "elems out [0, 0, 0]
      = (\<Sum>p<1 * 1. elems A [0, 0, p] * elems constant_grid [0, p div 1, p mod 1, 0]) / real (1 * 1)"
    by (rule token_learner_entry [where wt = example_learner and K = 1 and b = 0 and k = 0
          and d = 0, OF constant_grid_shape]) auto
  have half: "elems A idx = 1 / 2" for idx
    using attention_maps_zero_kernel [OF A] by (simp add: example_learner_def)
  have "elems out [0, 0, 0] = 3 / 2"
    unfolding eq by (simp add: half constant_grid_def)
  with A out half show thesis by (rule that)
qed

section \<open>The TokenLearner: claims\<close>

text \<open>
  Claim C1. For a grid of shape \<open>(B, h, w, D)\<close> with \<open>h * w \<ge> 1\<close> and a token count \<open>K\<close>
  (a positive count, on a grid with at least one channel), \<^verbatim>\<open>token_learner\<close> returns a
  tensor of shape \<open>(B, K, D)\<close> with
  \<open>output[b, k, d] = 1 / (h * w) * (\<Sum>p. A[b, k, p] * grid[b, p, d])\<close>, where \<open>A\<close> is the
  output of the convolution stack on the normalised input, used as it is (nothing
  normalises \<open>A\<close> over the positions), and \<open>grid\<close> is the input with its spatial axes merged.
\<close>

theorem token_learner_weighted_mean:
  assumes "shape inputs = [B, h, w, D]" and "1 \<le> h * w" and "0 < K" and "0 < D"
  shows "\<exists>A grid out.
      attention_maps wt K (LayerNormalization LAYER_NORM_EPS (tl_norm wt) inputs) = Inr A
    \<and> Reshape [1, - 1, int D] inputs = Inr grid
    \<and> token_learner wt inputs K = Inr out \<and> shape out = [B, K, D]
    \<and> (\<forall>b<B. \<forall>k<K. \<forall>d<D. elems out [b, k, d]
          = 1 / real (h * w) * (\<Sum>p<h * w. elems A [b, k, p] * elems grid [b, 0, p, d]))"
proof -
  obtain A g out where
    "attention_maps wt K (LayerNormalization LAYER_NORM_EPS (tl_norm wt) inputs) = Inr A"
    "shape A = [B, K, h * w]"
    "Reshape [1, - 1, int D] inputs = Inr g"
    "\<And>b p d. d < D \<Longrightarrow> elems g [b, 0, p, d] = elems inputs [b, p div w, p mod w, d]"
    "token_learner wt inputs K = Inr out"
    "shape out = [B, K, D]"
    "\<And>b k d. b < B \<Longrightarrow> k < K \<Longrightarrow> d < D \<Longrightarrow> elems out [b, k, d]
        = (\<Sum>p<h * w. elems A [b, k, p] * elems g [b, 0, p, d]) / real (h * w)"
    by (rule token_learner_pooled [where wt = wt, OF assms(1) _ assms(3) assms(4)])
      (use assms(2) in simp, blast)
  then show ?thesis by simp
qed

text \<open>On the 2x2 example with zero kernels every attention weight is 1/2, and the first
  channel holds 1, 2, 3, 4: the entry is \<open>1 / 4 * (1 / 2 * 10)\<close>.\<close>

theorem token_learner_weighted_mean_witness:
  "\<exists>out. token_learner example_learner example_grid 2 = Inr out \<and> shape out = [1, 2, 2]
         \<and> elems out [0, 1, 0] = 5 / 4"
proof -
  obtain A grid out where
    A: "attention_maps example_learner 2
          (LayerNormalization LAYER_NORM_EPS (tl_norm example_learner) example_grid) = Inr A" and
    g: "Reshape [1, - 1, int 2] example_grid = Inr grid" and
    out: "token_learner example_learner example_grid 2 = Inr out" "shape out = [1, 2, 2]" and
    mean: "\<forall>b<1. \<forall>k<2. \<forall>d<2. elems out [b, k, d]
          = 1 / real (2 * 2) * (\<Sum>p<2 * 2. elems A [b, k, p] * elems grid [b, 0, p, d])"
    using token_learner_weighted_mean [OF example_grid_shape, of 2 example_learner] by auto
  have half: "\<And>idx. elems A idx = 1 / 2"
    using attention_maps_zero_kernel [OF A] by (simp add: example_learner_def)
  have grid: "elems grid
      = (\<lambda>idx. elems example_grid (hd idx # unravel [2, 2, 2] (ravel [1, 4, 2] (tl idx))))"
    using g by (auto simp add: Reshape_def example_grid_def Let_def)
  have "elems out [0, 1, 0]
      = 1 / real (2 * 2) * (\<Sum>p<2 * 2. elems A [0, 1, p] * elems grid [0, 0, p, 0])"
    using mean by simp
  also have "\<dots> = 5 / 4"
    by (simp add: half grid example_grid_def lessThan_nat_numeral lessThan_Suc)
  finally show ?thesis using out by simp
qed

text \<open>
  Claim C2. On a grid with at least one position, what the attention maps multiply are
  the entries of the original input of \<^verbatim>\<open>token_learner\<close>, at the position
  \<open>(p div w, p mod w)\<close> of the grid; the normalised copy
  only feeds the convolutions that produce the maps. On the grid that is constant along the
  channels the normalised copy is zero, and the output is not the product with it.
\<close>

theorem token_learner_weights_raw_inputs:
  assumes "shape inputs = [B, h, w, D]" and "1 \<le> h * w" and "0 < K" and "0 < D"
  shows "(\<exists>A out.
      attention_maps wt K (LayerNormalization LAYER_NORM_EPS (tl_norm wt) inputs) = Inr A
    \<and> token_learner wt inputs K = Inr out
    \<and> (\<forall>b<B. \<forall>k<K. \<forall>d<D. elems out [b, k, d]
          = (\<Sum>p<h * w. elems A [b, k, p] * elems inputs [b, p div w, p mod w, d]) / real (h * w)))
    \<and> (\<exists>A out.
      attention_maps example_learner 1
        (LayerNormalization LAYER_NORM_EPS (tl_norm example_learner) constant_grid) = Inr A
    \<and> token_learner example_learner constant_grid 1 = Inr out
    \<and> elems out [0, 0, 0]
        \<noteq> elems A [0, 0, 0]
           * elems (LayerNormalization LAYER_NORM_EPS (tl_norm example_learner) constant_grid)
               [0, 0, 0, 0])"
proof
  obtain A g out where
    A: "attention_maps wt K (LayerNormalization LAYER_NORM_EPS (tl_norm wt) inputs) = Inr A"
    and "shape A = [B, K, h * w]"
    and "Reshape [1, - 1, int D] inputs = Inr g"
    and g: "\<And>b p d. d < D \<Longrightarrow> elems g [b, 0, p, d] = elems inputs [b, p div w, p mod w, d]"
    and out: "token_learner wt inputs K = Inr out"
    and "shape out = [B, K, D]"
    and mean: "\<And>b k d. b < B \<Longrightarrow> k < K \<Longrightarrow> d < D \<Longrightarrow> elems out [b, k, d]
        = (\<Sum>p<h * w. elems A [b, k, p] * elems g [b, 0, p, d]) / real (h * w)"
    by (rule token_learner_pooled [where wt = wt, OF assms(1) _ assms(3) assms(4)])
      (use assms(2) in simp, blast)
  show "\<exists>A out.
      attention_maps wt K (LayerNormalization LAYER_NORM_EPS (tl_norm wt) inputs) = Inr A
    \<and> token_learner wt inputs K = Inr out
    \<and> (\<forall>b<B. \<forall>k<K. \<forall>d<D. elems out [b, k, d]
          = (\<Sum>p<h * w. elems A [b, k, p] * elems inputs [b, p div w, p mod w, d]) / real (h * w))"
    using A out mean g by auto
next
  show "\<exists>A out.
      attention_maps example_learner 1
        (LayerNormalization LAYER_NORM_EPS (tl_norm example_learner) constant_grid) = Inr A
    \<and> token_learner example_learner constant_grid 1 = Inr out
    \<and> elems out [0, 0, 0]
        \<noteq> elems A [0, 0, 0]
           * elems (LayerNormalization LAYER_NORM_EPS (tl_norm example_learner) constant_grid)
               [0, 0, 0, 0]"
    by (rule constant_grid_tokens) (auto simp add: constant_grid_normalised)
qed

text \<open>The second channel of the 2x2 example holds -1, -2, -3, -4; half of their mean.\<close>

theorem token_learner_weights_raw_inputs_witness:
  "\<exists>out. token_learner example_learner example_grid 2 = Inr out \<and> elems out [0, 0, 1] = - 5 / 4"
proof -
  obtain A out where
    A: "attention_maps example_learner 2
          (LayerNormalization LAYER_NORM_EPS (tl_norm example_learner) example_grid) = Inr A" and
    out: "token_learner example_learner example_grid 2 = Inr out" and
    mean: "\<forall>b<1. \<forall>k<2. \<forall>d<2. elems out [b, k, d]
          = (\<Sum>p<2 * 2. elems A [b, k, p] * elems example_grid [b, p div 2, p mod 2, d])
            / real (2 * 2)"
    using token_learner_weights_raw_inputs [OF example_grid_shape, of 2 example_learner] by auto
  have half: "\<And>idx. elems A idx = 1 / 2"
    using attention_maps_zero_kernel [OF A] by (simp add: example_learner_def)
  have "elems out [0, 0, 1]
      = (\<Sum>p<2 * 2. elems A [0, 0, p] * elems example_grid [0, p div 2, p mod 2, 1]) / real (2 * 2)"
    using mean by simp
  also have "\<dots> = - 5 / 4"
    by (simp add: half example_grid_def lessThan_nat_numeral lessThan_Suc)
  finally show ?thesis using out by simp
qed

text \<open>
  Claim C3. Every value of the attention maps computed in \<^verbatim>\<open>token_learner\<close> lies in
  \<open>[0, 1]\<close>: it is a sigmoid, the activation of the last convolution. Nothing makes the
  values of one map sum to 1 over the positions: on the 2x2 example they sum to 2.
\<close>

theorem attention_maps_between_0_and_1:
  "(attention_maps wt K (LayerNormalization LAYER_NORM_EPS (tl_norm wt) inputs) = Inr A
      \<longrightarrow> 0 \<le> elems A idx \<and> elems A idx \<le> 1)
   \<and> (\<exists>A'. attention_maps example_learner 2
              (LayerNormalization LAYER_NORM_EPS (tl_norm example_learner) example_grid) = Inr A'
          \<and> shape A' = [1, 2, 4] \<and> (\<Sum>p<4. elems A' [0, 0, p]) \<noteq> 1)"
proof
  show "attention_maps wt K (LayerNormalization LAYER_NORM_EPS (tl_norm wt) inputs) = Inr A
      \<longrightarrow> 0 \<le> elems A idx \<and> elems A idx \<le> 1"
    using attention_maps_unit_interval [of wt K _ A idx] by (auto simp add: less_imp_le)
next
  show "\<exists>A'. attention_maps example_learner 2
              (LayerNormalization LAYER_NORM_EPS (tl_norm example_learner) example_grid) = Inr A'
          \<and> shape A' = [1, 2, 4] \<and> (\<Sum>p<4. elems A' [0, 0, p]) \<noteq> 1"
  proof -
    obtain A' where A': "attention_maps example_learner 2
       (LayerNormalization LAYER_NORM_EPS (tl_norm example_learner) example_grid) = Inr A'"
      "shape A' = [1, 2, 4]" and half: "\<And>idx. elems A' idx = 1 / 2"
      by (rule example_attention) blast
    have "(\<Sum>p<4. elems A' [0, 0, p]) = 2"
      unfolding half by simp
    with A' show ?thesis by simp
  qed
qed

theorem attention_maps_between_0_and_1_witness:
  "\<exists>A. attention_maps example_learner 2
          (LayerNormalization LAYER_NORM_EPS (tl_norm example_learner) example_grid) = Inr A
       \<and> 0 \<le> elems A [0, 1, 3] \<and> elems A [0, 1, 3] \<le> 1"
proof -
  obtain A where A: "attention_maps example_learner 2
       (LayerNormalization LAYER_NORM_EPS (tl_norm example_learner) example_grid) = Inr A"
    by (rule example_attention) blast
  then show ?thesis
    using attention_maps_between_0_and_1 [of example_learner 2 example_grid A "[0, 1, 3]"]
    by blast
qed

text \<open>
  Claim C10. Each output coordinate of \<^verbatim>\<open>token_learner\<close> lies between \<open>min 0\<close> of the least
  and \<open>max 0\<close> of the greatest value the grid has in that channel, over the positions of
  that image; its magnitude is at most the greatest magnitude there.
\<close>

theorem token_learner_never_amplifies:
  assumes "shape inputs = [B, h, w, D]" and "1 \<le> h * w" and "0 < K" and "0 < D"
    and "b < B" and "k < K" and "d < D"
  shows "\<exists>out. token_learner wt inputs K = Inr out
     \<and> min 0 (Min ((\<lambda>p. elems inputs [b, p div w, p mod w, d]) ` {..<h * w})) \<le> elems out [b, k, d]
     \<and> elems out [b, k, d] \<le> max 0 (Max ((\<lambda>p. elems inputs [b, p div w, p mod w, d]) ` {..<h * w}))
     \<and> \<bar>elems out [b, k, d]\<bar> \<le> Max ((\<lambda>p. \<bar>elems inputs [b, p div w, p mod w, d]\<bar>) ` {..<h * w})"
proof -
  let ?f = "\<lambda>p. elems inputs [b, p div w, p mod w, d]"
  let ?M = "Max ((\<lambda>p. \<bar>?f p\<bar>) ` {..<h * w})"
  have range: "Min (?f ` {..<h * w}) \<le> ?f p \<and> ?f p \<le> Max (?f ` {..<h * w})"
    if "p < h * w" for p
    using that by simp
  have abs: "\<bar>?f p\<bar> \<le> ?M" if "p < h * w" for p
    using that by simp
  have "0 < h * w" using assms(2) by simp
  then have "\<bar>?f 0\<bar> \<le> ?M" by (rule abs)
  then have M: "0 \<le> ?M" by linarith
  have sym: "- ?M \<le> ?f p \<and> ?f p \<le> ?M" if "p < h * w" for p
    using abs [OF that] by linarith
  obtain out where out: "token_learner wt inputs K = Inr out"
    and "min 0 (Min (?f ` {..<h * w})) \<le> elems out [b, k, d]"
    and "elems out [b, k, d] \<le> max 0 (Max (?f ` {..<h * w}))"
    using token_learner_entry_between [OF assms, of "Min (?f ` {..<h * w})" "Max (?f ` {..<h * w})" wt]
      range by blast
  moreover obtain out' where "token_learner wt inputs K = Inr out'"
    and "min 0 (- ?M) \<le> elems out' [b, k, d]" and "elems out' [b, k, d] \<le> max 0 ?M"
    using token_learner_entry_between [OF assms, of "- ?M" ?M wt] sym by blast
  moreover from this out have "out' = out" by simp
  ultimately show ?thesis using M by auto
qed

theorem token_learner_never_amplifies_witness:
  "\<exists>out. token_learner example_learner example_grid 2 = Inr out
      \<and> - 4 \<le> elems out [0, 1, 1] \<and> elems out [0, 1, 1] \<le> 0 \<and> \<bar>elems out [0, 1, 1]\<bar> \<le> 4"
proof -
  have img: "(\<lambda>p. elems example_grid [0, p div 2, p mod 2, 1]) ` {..<2 * 2} = {- 1, - 2, - 3, - 4}"
    by (auto simp add: example_grid_def lessThan_nat_numeral lessThan_Suc)
  have img': "(\<lambda>p. \<bar>elems example_grid [0, p div 2, p mod 2, 1]\<bar>) ` {..<2 * 2} = {1, 2, 3, 4}"
    by (auto simp add: example_grid_def lessThan_nat_numeral lessThan_Suc)
  show ?thesis
    using token_learner_never_amplifies [OF example_grid_shape, of 2 0 1 1 example_learner]
    unfolding img img' by simp
qed

section \<open>The Transformer block: properties\<close>

lemma Dropout_shape [simp]: "shape (Dropout r t s x) = shape x"
  by (simp add: Dropout_def)

lemma Dense_shape [simp]: "shape (Dense l w x) = butlast (shape x) @ [units l]"
  by (simp add: Dense_def)

lemma mlp_shape:
  assumes "shape x = [B, N, D]"
  shows "shape (mlp w t r x rate [a, b]) = [B, N, b]"
  using assms by simp

lemma broadcast_rev_same: "broadcast_rev xs xs = Inr xs"
  by (induction xs) auto

lemma Add_same_shape:
  assumes "shape a = shape b"
  shows "\<exists>y. Add a b = Inr y \<and> shape y = shape a"
  using assms by (simp add: Add_def elementwise_def broadcast_shapes_def broadcast_rev_same)

lemma MultiHeadAttention_shape:
  assumes "shape x = [B, N, D]"
  shows "\<exists>y. MultiHeadAttention l w t s x x = Inr y \<and> shape y = [B, N, D]"
  using assms by (simp add: MultiHeadAttention_def)

lemma self_attention_shape:
  assumes "shape x = [B, N, D]"
  shows "\<exists>x2. self_attention cfg w t r x = Inr x2 \<and> shape x2 = [B, N, D]"
proof -
  let ?x1 = "LayerNormalization LAYER_NORM_EPS (norm1 w) x"
  have "shape ?x1 = [B, N, D]" using assms by simp
  from MultiHeadAttention_shape [OF this]
  obtain a where a: "MultiHeadAttention (transformer_attention cfg) (attention w) t (r 0) ?x1 ?x1 = Inr a"
    "shape a = [B, N, D]" by blast
  have "shape a = shape x" using a(2) assms by simp
  from Add_same_shape [OF this]
  obtain x2 where x2: "Add a x = Inr x2" "shape x2 = [B, N, D]"
    using a(2) by auto
  have "self_attention cfg w t r x = Inr x2"
    unfolding self_attention_def Let_def a(1) and_then_Inr by (rule x2(1))
  with x2(2) show ?thesis by blast
qed

lemma transformer_shape:
  assumes "shape x = [B, N, PROJECTION_DIM cfg]"
  shows "\<exists>y. transformer cfg w t r x = Inr y \<and> shape y = [B, N, PROJECTION_DIM cfg]"
proof -
  obtain x2 where x2: "self_attention cfg w t r x = Inr x2" "shape x2 = [B, N, PROJECTION_DIM cfg]"
    using self_attention_shape [OF assms] by blast
  let ?x4 = "mlp (mlp_dense w) t (\<lambda>s. r (Suc s)) (LayerNormalization LAYER_NORM_EPS (norm2 w) x2)
               0.1 (MLP_UNITS cfg)"
  have "shape ?x4 = shape x2"
    using x2(2) by (simp add: MLP_UNITS_def)
  from Add_same_shape [OF this]
  obtain y where y: "Add ?x4 x2 = Inr y" "shape y = shape ?x4" by blast
  have "transformer cfg w t r x = Inr y"
    unfolding transformer_def Let_def x2(1) and_then_Inr by (rule y(1))
  moreover have "shape y = [B, N, PROJECTION_DIM cfg]"
    using y(2) x2(2) by (simp add: MLP_UNITS_def)
  ultimately show ?thesis by blast
qed

lemma encoder_blocks_plain_shape:
  assumes "shape x = [B, N, PROJECTION_DIM cfg]"
  shows "\<exists>y. encoder_blocks cfg w False K t r n x = Inr y \<and> shape y = [B, N, PROJECTION_DIM cfg]"
proof (induction n)
  case 0
  then show ?case using assms by simp
next
  case (Suc n)
  then obtain y where y: "encoder_blocks cfg w False K t r n x = Inr y"
    "shape y = [B, N, PROJECTION_DIM cfg]" by blast
  obtain z where "transformer cfg (block w n) t (\<lambda>s. r (3 + 3 * n + s)) y = Inr z"
    "shape z = [B, N, PROJECTION_DIM cfg]"
    using transformer_shape [OF y(2)] by blast
  then show ?case
    by (simp add: y(1))
qed

section \<open>The classifier: properties\<close>

lemma int_sqrt_bounds:
  "int_sqrt n * int_sqrt n \<le> n \<and> n < Suc (int_sqrt n) * Suc (int_sqrt n)"
  by (induction n) auto

lemma int_sqrt_unique:
  assumes "m * m \<le> n" and "n < Suc m * Suc m"
  shows "int_sqrt n = m"
proof (rule ccontr)
  assume "int_sqrt n \<noteq> m"
  then consider "Suc (int_sqrt n) \<le> m" | "Suc m \<le> int_sqrt n" by linarith
  then show False
  proof cases
    case 1
    then have "Suc (int_sqrt n) * Suc (int_sqrt n) \<le> m * m" by (intro mult_le_mono)
    with int_sqrt_bounds [of n] assms(1) show False by linarith
  next
    case 2
    then have "Suc m * Suc m \<le> int_sqrt n * int_sqrt n" by (intro mult_le_mono)
    with int_sqrt_bounds [of n] assms(2) show False by linarith
  qed
qed

lemma int_sqrt_square [simp]: "int_sqrt (m * m) = m"
  by (rule int_sqrt_unique) simp_all

lemma int_sqrt_floor: "int_sqrt n = nat \<lfloor>sqrt (real n)\<rfloor>"
proof -
  let ?r = "int_sqrt n"
  have "real (?r * ?r) \<le> real n" and "real n < real (Suc ?r * Suc ?r)"
    using int_sqrt_bounds [of n] by (simp_all only: of_nat_le_iff of_nat_less_iff)
  then have "(real ?r)\<^sup>2 \<le> real n" and "real n < (real ?r + 1)\<^sup>2"
    by (simp_all add: power2_eq_square algebra_simps)
  then have "real ?r \<le> sqrt (real n)" and "sqrt (real n) < real ?r + 1"
    by (simp_all add: real_le_rsqrt real_less_lsqrt)
  then have "\<lfloor>sqrt (real n)\<rfloor> = int ?r"
    by (intro floor_unique) simp_all
  then show ?thesis by simp
qed

lemma Rescaling_shape [simp]: "shape (Rescaling c x) = shape x"
  by (simp add: Rescaling_def)

lemma resize_bilinear_shape [simp]:
  "shape (resize_bilinear height width x) = [shape x ! 0, height, width, shape x ! 3]"
  by (simp add: resize_bilinear_def)

lemma crop_to_bounding_box_shape [simp]:
  "shape (crop_to_bounding_box i j height width x) = [shape x ! 0, height, width, shape x ! 3]"
  by (simp add: crop_to_bounding_box_def)

lemma RandomCrop_shape [simp]:
  "shape (RandomCrop height width t s x) = [shape x ! 0, height, width, shape x ! 3]"
  by (simp add: RandomCrop_def smart_resize_def Let_def)

lemma RandomFlip_horizontal_shape [simp]: "shape (RandomFlip_horizontal t s x) = shape x"
  by (simp add: RandomFlip_horizontal_def)

lemma data_augmentation_shape:
  assumes "shape x = [B, H, W, C]"
  shows "shape (data_augmentation cfg t r x) = [B, IMAGE_SIZE cfg, IMAGE_SIZE cfg, C]"
  using assms by (simp add: data_augmentation_def Resizing_def)

lemma create_patches_shape:
  assumes "shape x = [B, H, W, C]" and "0 < C" and "0 < PATCH_SIZE cfg"
    and "PATCH_SIZE cfg \<le> H" and "PATCH_SIZE cfg \<le> W" and "0 < PROJECTION_DIM cfg"
  shows "\<exists>y. create_patches cfg w x = Inr y
           \<and> shape y = [B, (H div PATCH_SIZE cfg) * (W div PATCH_SIZE cfg), PROJECTION_DIM cfg]"
  using assms
  by (simp add: create_patches_def Conv2D_def conv_output_length_def Reshape_def Let_def
      nat_mult_distrib)


lemma create_patches_no_channels:
  assumes "shape x = [B, H, W, 0]"
  shows "create_patches cfg w x = Inl ValueError"
  using assms by (simp add: create_patches_def Conv2D_def split: prod.splits)

lemma position_embedding_shape:
  assumes "shape x = [B, N, D]" and "0 < N" and "0 < D"
  shows "\<exists>y. position_embedding tbl x N D = Inr y \<and> shape y = [B, N, D]"
  using assms
  by (simp add: position_embedding_def Embedding_range_def elementwise_def broadcast_shapes_def)

lemma learn_tokens_shape:
  assumes "shape x = [B, m * m, D]" and "0 < m" and "0 < K" and "0 < D"
  shows "\<exists>y. learn_tokens w K x = Inr y \<and> shape y = [B, K, D]"
proof -
  have "\<exists>g. Reshape [int m, int m, int D] x = Inr g \<and> shape g = [B, m, m, D]"
    using assms(1) by (simp add: Reshape_def Let_def nat_mult_distrib)
  then obtain g where g: "Reshape [int m, int m, int D] x = Inr g" "shape g = [B, m, m, D]"
    by blast
  have "0 < m * m" using assms(2) by simp
  obtain A g' out where "token_learner w g K = Inr out" "shape out = [B, K, D]"
    by (rule token_learner_pooled [where wt = w, OF g(2) \<open>0 < m * m\<close> assms(3) assms(4)]) blast
  then show ?thesis
    using assms(1) g(1) by (simp add: learn_tokens_def Let_def)
qed

lemma classify_shape:
  assumes "shape x = [B, N, D]" and "0 < N"
  shows "\<exists>y. classify cfg w x = Inr y \<and> shape y = [B, NUM_CLASSES cfg]"
  using assms by (simp add: classify_def reduce_mean_def Let_def)

lemma embed_patches_shape:
  assumes "shape inputs = [B, H0, W0, C0]" and "INPUT_SHAPE cfg = [H0, W0, C0]" and "0 < C0"
    and "0 < PATCH_SIZE cfg" and "PATCH_SIZE cfg \<le> IMAGE_SIZE cfg" and "0 < PROJECTION_DIM cfg"
  shows "\<exists>e. embed_patches cfg w t r inputs = Inr e
           \<and> shape e = [B, NUM_PATCHES cfg, PROJECTION_DIM cfg]"
proof -
  have aug: "shape (data_augmentation cfg t r inputs) = [B, IMAGE_SIZE cfg, IMAGE_SIZE cfg, C0]"
    using assms(1) by (rule data_augmentation_shape)
  obtain p where p: "create_patches cfg (patch_projection w) (data_augmentation cfg t r inputs) = Inr p"
    "shape p = [B, (IMAGE_SIZE cfg div PATCH_SIZE cfg) * (IMAGE_SIZE cfg div PATCH_SIZE cfg),
                PROJECTION_DIM cfg]"
    using create_patches_shape [OF aug assms(3) assms(4) assms(5) assms(5) assms(6)] by blast
  have n: "NUM_PATCHES cfg = (IMAGE_SIZE cfg div PATCH_SIZE cfg) * (IMAGE_SIZE cfg div PATCH_SIZE cfg)"
    by (simp add: NUM_PATCHES_def power2_eq_square)
  have "0 < IMAGE_SIZE cfg div PATCH_SIZE cfg"
    using assms(4,5) by (simp add: div_greater_zero_iff)
  then have pos: "0 < NUM_PATCHES cfg" by (simp add: n)
  have "shape p = [B, NUM_PATCHES cfg, PROJECTION_DIM cfg]" using p(2) n by simp
  from position_embedding_shape [OF this pos assms(6)]
  obtain e where e: "position_embedding (position_table w) p (NUM_PATCHES cfg) (PROJECTION_DIM cfg) = Inr e"
    "shape e = [B, NUM_PATCHES cfg, PROJECTION_DIM cfg]" by blast
  show ?thesis
    using assms(1,2,4) p(1) e by (simp add: embed_patches_def Let_def)
qed

lemma encoder_blocks_shape:
  assumes "shape x = [B, m * m, PROJECTION_DIM cfg]" and "0 < m" and "0 < K"
    and "0 < PROJECTION_DIM cfg" and "j \<le> NUM_LAYERS cfg"
  shows "\<exists>y. encoder_blocks cfg w True K t r j x = Inr y
           \<and> shape y = [B, if j \<le> NUM_LAYERS cfg div 2 then m * m else K, PROJECTION_DIM cfg]"
  using assms(5)
proof (induction j)
  case 0
  then show ?case using assms(1) by simp
next
  case (Suc j)
  let ?n = "if j \<le> NUM_LAYERS cfg div 2 then m * m else K"
  from Suc obtain y where y: "encoder_blocks cfg w True K t r j x = Inr y"
    "shape y = [B, ?n, PROJECTION_DIM cfg]" by auto
  obtain z where z: "transformer cfg (block w j) t (\<lambda>s. r (3 + 3 * j + s)) y = Inr z"
    "shape z = [B, ?n, PROJECTION_DIM cfg]"
    using transformer_shape [OF y(2)] by blast
  show ?case
  proof (cases "j = NUM_LAYERS cfg div 2")
    case True
    then have "shape z = [B, m * m, PROJECTION_DIM cfg]" using z(2) by simp
    from learn_tokens_shape [OF this assms(2) assms(3) assms(4)]
    obtain v where v: "learn_tokens (learner w) K z = Inr v" "shape v = [B, K, PROJECTION_DIM cfg]"
      by blast
    have "encoder_blocks cfg w True K t r (Suc j) x = Inr v"
      unfolding encoder_blocks.simps y(1) and_then_Inr z(1) using True v(1) by simp
    then show ?thesis using True v(2) by simp
  next
    case False
    then have le: "(Suc j \<le> NUM_LAYERS cfg div 2) = (j \<le> NUM_LAYERS cfg div 2)" by auto
    have "encoder_blocks cfg w True K t r (Suc j) x = Inr z"
      unfolding encoder_blocks.simps y(1) and_then_Inr z(1) using False by simp
    then show ?thesis using z(2) by (simp only: le) simp
  qed
qed

lemma create_vit_classifier_shape:
  assumes "shape inputs = [B, H0, W0, C0]" and "INPUT_SHAPE cfg = [H0, W0, C0]" and "0 < C0"
    and "0 < PATCH_SIZE cfg" and "PATCH_SIZE cfg \<le> IMAGE_SIZE cfg" and "0 < PROJECTION_DIM cfg"
    and "0 < K"
  shows "\<exists>out. create_vit_classifier cfg w True K t r inputs = Inr out
           \<and> shape out = [B, NUM_CLASSES cfg]"
proof -
  let ?m = "IMAGE_SIZE cfg div PATCH_SIZE cfg"
  obtain e where e: "embed_patches cfg w t r inputs = Inr e"
    "shape e = [B, NUM_PATCHES cfg, PROJECTION_DIM cfg]"
    using embed_patches_shape [OF assms(1-6)] by blast
  have sq: "shape e = [B, ?m * ?m, PROJECTION_DIM cfg]"
    using e(2) by (simp add: NUM_PATCHES_def power2_eq_square)
  have m: "0 < ?m"
    using assms(4,5) by (simp add: div_greater_zero_iff)
  let ?n = "if NUM_LAYERS cfg \<le> NUM_LAYERS cfg div 2 then ?m * ?m else K"
  obtain y where y: "encoder_blocks cfg w True K t r (NUM_LAYERS cfg) e = Inr y"
    "shape y = [B, ?n, PROJECTION_DIM cfg]"
    using encoder_blocks_shape [OF sq m assms(7) assms(6) le_refl] by blast
  have "0 < ?n" using m assms(7) by simp
  from classify_shape [OF y(2) this]
  obtain out where "classify cfg w y = Inr out" "shape out = [B, NUM_CLASSES cfg]" by blast
  then show ?thesis
    by (simp add: create_vit_classifier_def e(1) y(1))
qed

subsection \<open>Inference mode does not read the random streams\<close>

lemma Dropout_inference [simp]: "Dropout rate False stream x = x"
  by (simp add: Dropout_def)

lemma data_augmentation_inference:
  "data_augmentation cfg False rng x = data_augmentation cfg False rng' x"
  by (simp add: data_augmentation_def RandomFlip_horizontal_def RandomCrop_def)

lemma attention_scores_inference:
  "attention_scores l w False stream query v = attention_scores l w False stream' query v"
  by (simp add: attention_scores_def)

lemma MultiHeadAttention_inference:
  "MultiHeadAttention l w False stream query v = MultiHeadAttention l w False stream' query v"
  unfolding MultiHeadAttention_def attention_scores_inference [of l w stream query v stream'] ..

lemma mlp_inference:
  "mlp w False rng x rate hidden_units = mlp w False rng' x rate hidden_units"
  by (induction hidden_units arbitrary: w rng rng' x) simp_all

lemma self_attention_inference:
  "self_attention cfg w False rng x = self_attention cfg w False rng' x"
  unfolding self_attention_def
    MultiHeadAttention_inference [of _ _ "rng 0" _ _ "rng' 0"] ..

lemma transformer_inference:
  "transformer cfg w False rng x = transformer cfg w False rng' x"
  unfolding transformer_def
    self_attention_inference [of cfg w rng x rng']
    mlp_inference [of _ "\<lambda>s. rng (Suc s)" _ _ _ "\<lambda>s. rng' (Suc s)"] ..

lemma encoder_blocks_inference:
  "encoder_blocks cfg w u K False rng n x = encoder_blocks cfg w u K False rng' n x"
proof (induction n)
  case 0
  show ?case by simp
next
  case (Suc n)
  show ?case
    unfolding encoder_blocks.simps Suc
      transformer_inference [of cfg _ "\<lambda>s. rng (3 + 3 * n + s)" _ "\<lambda>s. rng' (3 + 3 * n + s)"] ..
qed

lemma embed_patches_inference:
  "embed_patches cfg w False rng x = embed_patches cfg w False rng' x"
  unfolding embed_patches_def Dropout_inference
    data_augmentation_inference [of cfg rng x rng'] ..

text \<open>In training mode the streams are read: two streams give two results.\<close>

lemma Dropout_training_reads_stream:
  "Dropout 0.1 True (\<lambda>idx. 0) tokens_8 \<noteq> Dropout 0.1 True (\<lambda>idx. 1) tokens_8"
proof
  assume "Dropout 0.1 True (\<lambda>idx. 0) tokens_8 = Dropout 0.1 True (\<lambda>idx. 1) tokens_8"
  then have "elems (Dropout 0.1 True (\<lambda>idx. 0) tokens_8) [0, 1, 0]
             = elems (Dropout 0.1 True (\<lambda>idx. 1) tokens_8) [0, 1, 0]"
    by simp
  then show False
    by (simp add: Dropout_def tokens_8_def)
qed

subsection \<open>The TokenLearner step on a sequence whose length is not a square\<close>

text \<open>\<^verbatim>\<open>Reshape((h, h, c))\<close> with \<open>h = int(math.sqrt(hh))\<close> rejects a sequence with channels
  whose length \<open>hh\<close> is not a perfect square. In \<^verbatim>\<open>create_vit_classifier\<close> the length at this
  step is \<open>(IMAGE_SIZE // PATCH_SIZE)\<^sup>2\<close>, see \<open>embed_patches_shape\<close>.\<close>

lemma learn_tokens_non_square:
  assumes "shape x = [B, N, c]" and "0 < c" and "\<forall>m. m * m \<noteq> N"
  shows "learn_tokens w K x = Inl ValueError"
proof -
  let ?h = "int_sqrt N"
  have "?h * ?h \<noteq> N" using assms(3) by simp
  then have "N * c \<noteq> ?h * ?h * c" using assms(2) by simp
  then have "Reshape [int ?h, int ?h, int c] x = Inl ValueError"
    using assms(1) by (simp add: Reshape_def Let_def nat_mult_distrib)
  then show ?thesis
    using assms(1) by (simp add: learn_tokens_def Let_def)
qed

subsection \<open>The notebook's configuration\<close>

lemma tokens_64_shape: "shape tokens_64 = [1, 64, 128]"
  by (simp add: tokens_64_def)

lemma black_image_shape: "shape black_image = [1, 32, 32, 3]"
  by (simp add: black_image_def)

lemma notebook_pipeline:
  assumes "shape images = [B, 32, 32, 3]"
  shows "shape (data_augmentation notebook training rng images) = [B, 48, 48, 3]
       \<and> (\<exists>e y2 y3 out.
             embed_patches notebook w training rng images = Inr e \<and> shape e = [B, 64, 128]
           \<and> encoder_blocks notebook w True 4 training rng 2 e = Inr y2 \<and> shape y2 = [B, 64, 128]
           \<and> encoder_blocks notebook w True 4 training rng 3 e = Inr y3 \<and> shape y3 = [B, 4, 128]
           \<and> create_vit_classifier notebook w True (NUM_TOKENS notebook) training rng images = Inr out
           \<and> shape out = [B, 10])"
proof -
  have aug: "shape (data_augmentation notebook training rng images) = [B, 48, 48, 3]"
    using data_augmentation_shape [OF assms, of notebook training rng] by (simp add: notebook_def)
  have cfg: "INPUT_SHAPE notebook = [32, 32, 3]" "0 < (3::nat)" "0 < PATCH_SIZE notebook"
    "PATCH_SIZE notebook \<le> IMAGE_SIZE notebook" "0 < PROJECTION_DIM notebook"
    by (simp_all add: notebook_def)
  obtain e where e: "embed_patches notebook w training rng images = Inr e"
    "shape e = [B, NUM_PATCHES notebook, PROJECTION_DIM notebook]"
    using embed_patches_shape [OF assms cfg] by blast
  have e8: "shape e = [B, 8 * 8, PROJECTION_DIM notebook]"
    using e(2) by (simp add: NUM_PATCHES_def notebook_def)
  obtain y2 where y2: "encoder_blocks notebook w True 4 training rng 2 e = Inr y2"
    "shape y2 = [B, 64, 128]"
    using encoder_blocks_shape [OF e8 _ _ cfg(5), of 4 2 w training rng]
    by (auto simp add: notebook_def)
  obtain y3 where y3: "encoder_blocks notebook w True 4 training rng 3 e = Inr y3"
    "shape y3 = [B, 4, 128]"
    using encoder_blocks_shape [OF e8 _ _ cfg(5), of 4 3 w training rng]
    by (auto simp add: notebook_def)
  obtain out where out: "create_vit_classifier notebook w True 4 training rng images = Inr out"
    "shape out = [B, 10]"
    using create_vit_classifier_shape [OF assms cfg, of 4 w training rng]
    by (auto simp add: notebook_def)
  have "shape e = [B, 64, 128]" using e8 by (simp add: notebook_def)
  with aug e(1) y2 y3 out show ?thesis by (simp add: notebook_def)
qed

section \<open>The entries of the attention output\<close>

lemma broadcast_index_same:
  assumes "b < B" "t < N" "d < D"
  shows "broadcast_index [B, N, D] [b, t, d] = [b, t, d]"
  using assms by (auto simp add: broadcast_index_def)

lemma self_attention_entry:
  assumes "shape x = [B, N, D]" and "b < B" and "t < N" and "d < D"
  shows "\<exists>x2. self_attention cfg w training rng x = Inr x2 \<and> shape x2 = [B, N, D]
     \<and> elems x2 [b, t, d]
        = (\<Sum>h<NUM_HEADS cfg. \<Sum>e<PROJECTION_DIM cfg.
             (\<Sum>s<N. elems (attention_scores (transformer_attention cfg) (attention w) training (rng 0)
                               (LayerNormalization LAYER_NORM_EPS (norm1 w) x)
                               (LayerNormalization LAYER_NORM_EPS (norm1 w) x)) [b, h, t, s]
                     * elems (mha_value (transformer_attention cfg) (attention w)
                               (LayerNormalization LAYER_NORM_EPS (norm1 w) x)) [b, s, h, e])
             * output_kernel (attention w) h e d)
          + output_bias (attention w) d + elems x [b, t, d]"
  using assms
  by (simp add: self_attention_def MultiHeadAttention_def Add_def elementwise_def
      broadcast_shapes_def broadcast_rev_same broadcast_index_same transformer_attention_def Let_def)

lemma project_heads_entry:
  assumes "shape x = [B, N, D]"
  shows "elems (project_heads kern bs l x) [b, s, h, e]
         = (\<Sum>i<D. elems x [b, s, i] * kern i h e) + bs h e"
  using assms by (simp add: project_heads_def)

lemma attention_scores_entry:
  assumes "shape x = [B, N, D]"
  shows "elems (attention_scores (transformer_attention cfg) a training stream x x) [b, h, t, s]
     = (if training \<and> stream [b, h, t, s] < 0.1 then 0
        else (exp (\<Sum>e<PROJECTION_DIM cfg.
                    ((\<Sum>i<D. elems x [b, t, i] * query_kernel a i h e) + query_bias a h e)
                    * (1 / sqrt (real (PROJECTION_DIM cfg)))
                    * ((\<Sum>i<D. elems x [b, s, i] * key_kernel a i h e) + key_bias a h e))
              / (\<Sum>s'<N. exp (\<Sum>e<PROJECTION_DIM cfg.
                    ((\<Sum>i<D. elems x [b, t, i] * query_kernel a i h e) + query_bias a h e)
                    * (1 / sqrt (real (PROJECTION_DIM cfg)))
                    * ((\<Sum>i<D. elems x [b, s', i] * key_kernel a i h e) + key_bias a h e))))
             / (if training then 1 - 0.1 else 1))"
  using assms
  by (simp add: attention_scores_def Dropout_def softmax_def attention_logit_def mha_query_def
      mha_key_def project_heads_def transformer_attention_def)

lemma tokens_width_1_shape: "shape tokens_width_1 = [1, 64, 1]"
  by (simp add: tokens_width_1_def)

lemma tokens_width_64_shape: "shape tokens_width_64 = [1, 64, 64]"
  by (simp add: tokens_width_64_def)

section \<open>The Transformer block: claims\<close>

text \<open>
  Claim C4, as the code has it. The attention of the Transformer block is
  \<^verbatim>\<open>MultiHeadAttention(num_heads=NUM_HEADS, key_dim=PROJECTION_DIM)\<close> applied to the
  normalised sequence \<open>x1\<close> as query and as value, without a mask. The entry of token \<open>t\<close> after
  the residual addition is a sum over the \<open>NUM_HEADS\<close> heads, over the \<open>PROJECTION_DIM\<close>
  coordinates of a head (each head is as wide as the whole embedding, not that width divided
  by the number of heads) and over all \<open>N\<close> tokens \<open>s\<close> of the sequence, of the softmax weight
  of \<open>s\<close> for \<open>t\<close> times the value of \<open>s\<close>; in training a weight is dropped where its random
  number is below the rate 0.1 and scaled by \<open>1 / (1 - 0.1)\<close> otherwise. The block returns
  this sum plus the MLP of its normalisation.
\<close>

theorem transformer_attention_heads:
  assumes "shape x = [B, N, D]" and "PROJECTION_DIM cfg = D" and "b < B" and "t < N" and "d < D"
    and "0 < NUM_HEADS cfg"
  shows "let x1 = LayerNormalization LAYER_NORM_EPS (norm1 w) x;
             a = attention w;
             query = (\<lambda>t h e. (\<Sum>i<D. elems x1 [b, t, i] * query_kernel a i h e) + query_bias a h e);
             key = (\<lambda>s h e. (\<Sum>i<D. elems x1 [b, s, i] * key_kernel a i h e) + key_bias a h e);
             val = (\<lambda>s h e. (\<Sum>i<D. elems x1 [b, s, i] * value_kernel a i h e) + value_bias a h e);
             score = (\<lambda>h t s. \<Sum>e<PROJECTION_DIM cfg.
                        query t h e * (1 / sqrt (real (PROJECTION_DIM cfg))) * key s h e);
             weight = (\<lambda>h t s. if training \<and> rng 0 [b, h, t, s] < 0.1 then 0
                        else exp (score h t s) / (\<Sum>s'<N. exp (score h t s'))
                             / (if training then 1 - 0.1 else 1))
         in \<exists>x2 y.
              self_attention cfg w training rng x = Inr x2 \<and> shape x2 = [B, N, D]
            \<and> elems x2 [b, t, d]
                = (\<Sum>h<NUM_HEADS cfg. \<Sum>e<PROJECTION_DIM cfg.
                     (\<Sum>s<N. weight h t s * val s h e) * output_kernel a h e d)
                  + output_bias a d + elems x [b, t, d]
            \<and> transformer cfg w training rng x = Inr y \<and> shape y = [B, N, D]
            \<and> elems y [b, t, d]
                = elems (mlp (mlp_dense w) training (\<lambda>s. rng (Suc s))
                           (LayerNormalization LAYER_NORM_EPS (norm2 w) x2) 0.1 (MLP_UNITS cfg))
                    [b, t, d]
                  + elems x2 [b, t, d]"
proof -
  let ?x1 = "LayerNormalization LAYER_NORM_EPS (norm1 w) x"
  have s1: "shape ?x1 = [B, N, D]" using assms(1) by simp
  obtain x2 where x2: "self_attention cfg w training rng x = Inr x2" "shape x2 = [B, N, D]"
    and entry: "elems x2 [b, t, d]
        = (\<Sum>h<NUM_HEADS cfg. \<Sum>e<PROJECTION_DIM cfg.
             (\<Sum>s<N. elems (attention_scores (transformer_attention cfg) (attention w) training (rng 0)
                               ?x1 ?x1) [b, h, t, s]
                     * elems (mha_value (transformer_attention cfg) (attention w) ?x1) [b, s, h, e])
             * output_kernel (attention w) h e d)
          + output_bias (attention w) d + elems x [b, t, d]"
    using self_attention_entry [OF assms(1) assms(3-5), of cfg w training rng] by blast
  let ?x4 = "mlp (mlp_dense w) training (\<lambda>s. rng (Suc s))
               (LayerNormalization LAYER_NORM_EPS (norm2 w) x2) 0.1 (MLP_UNITS cfg)"
  have s4: "shape ?x4 = [B, N, D]"
    using x2(2) assms(2) by (simp add: MLP_UNITS_def)
  have y: "transformer cfg w training rng x
      = Inr \<lparr>shape = [B, N, D],
             elems = (\<lambda>idx. elems ?x4 (broadcast_index [B, N, D] idx)
                             + elems x2 (broadcast_index [B, N, D] idx))\<rparr>"
    unfolding transformer_def x2(1) and_then_Inr Let_def
    by (simp add: Add_def elementwise_def broadcast_shapes_def broadcast_rev_same s4 x2(2))
  show ?thesis
    unfolding Let_def
    by (simp add: x2 y entry attention_scores_entry [OF s1] mha_value_def
        project_heads_entry [OF s1] broadcast_index_same [OF assms(3-5)])
qed

text \<open>The notebook's block with zero kernels on 64 tokens of width 128, where token \<open>t\<close> has
  the value \<open>t\<close> in every coordinate: attention and MLP add nothing.\<close>

theorem transformer_attention_heads_witness:
  "\<exists>x2 y. self_attention notebook example_block False (\<lambda>s idx. 0) tokens_64 = Inr x2
        \<and> shape x2 = [1, 64, 128] \<and> elems x2 [0, 5, 7] = 5
        \<and> transformer notebook example_block False (\<lambda>s idx. 0) tokens_64 = Inr y
        \<and> shape y = [1, 64, 128] \<and> elems y [0, 5, 7] = 5"
proof -
  have p: "PROJECTION_DIM notebook = 128" by (simp add: notebook_def)
  have n: "0 < NUM_HEADS notebook" by (simp add: notebook_def)
  have zero: "elems (mlp (mlp_dense example_block) False r z 0.1 (MLP_UNITS notebook)) idx = 0"
    for r z idx
    by (simp add: MLP_UNITS_def example_block_def zero_dense_def Dense_def pointwise_def gelu_def)
  have a: "attention example_block = zero_attention"
    by (simp add: example_block_def)
  have x: "elems tokens_64 [0, 5, 7] = 5"
    by (simp add: tokens_64_def)
  have "(0::nat) < 1" "(5::nat) < 64" "(7::nat) < 128" by simp_all
  from transformer_attention_heads [OF tokens_64_shape p this n, of example_block False
      "\<lambda>s idx. 0"]
  show ?thesis
    unfolding Let_def zero a x
    by (auto simp add: zero_attention_def)
qed

text \<open>With the notebook's values each head is 128 wide, while 128 divided by the 4 heads
  is 32.\<close>

theorem head_width_counterexample:
  "shape (mha_query (transformer_attention notebook) (attention example_block)
            (LayerNormalization LAYER_NORM_EPS (norm1 example_block) tokens_64))
     = [1, 64, 4, 128]
   \<and> PROJECTION_DIM notebook div NUM_HEADS notebook = 32
   \<and> key_dim (transformer_attention notebook) \<noteq> PROJECTION_DIM notebook div NUM_HEADS notebook"
  by (simp add: transformer_attention_def mha_query_def project_heads_def notebook_def
      tokens_64_def)

text \<open>
  Claim C7, as the code has it. A Transformer block returns a sequence of the shape of its
  input for every number of tokens \<open>N\<close>, when the width \<open>D\<close> of the input is the embedding
  width \<open>PROJECTION_DIM\<close> the block is built with (the last Dense layer of the MLP has
  \<open>PROJECTION_DIM\<close> units, whatever the width of the input is); so does a stack of any number
  of blocks.
\<close>

theorem transformer_preserves_shape:
  assumes "shape x = [B, N, D]" and "PROJECTION_DIM cfg = D" and "0 < D"
    and "0 < NUM_HEADS cfg"
  shows "(\<exists>y. transformer cfg w training rng x = Inr y \<and> shape y = shape x)
       \<and> (\<exists>y. encoder_blocks cfg vw False K training rng n x = Inr y \<and> shape y = shape x)"
proof -
  have s: "shape x = [B, N, PROJECTION_DIM cfg]"
    using assms(1,2) by simp
  show ?thesis
    using transformer_shape [OF s, of w training rng]
      encoder_blocks_plain_shape [OF s, of vw K training rng n] s
    by simp
qed

text \<open>One block, and a stack of seven, on 64 tokens of width 128 in training mode.\<close>

theorem transformer_preserves_shape_witness:
  "(\<exists>y. transformer notebook example_block True (\<lambda>s idx. 0) tokens_64 = Inr y
         \<and> shape y = [1, 64, 128])
   \<and> (\<exists>y. encoder_blocks notebook example_vit False 4 True (\<lambda>s idx. 0) 7 tokens_64 = Inr y
         \<and> shape y = [1, 64, 128])"
proof -
  have "PROJECTION_DIM notebook = 128" "(0::nat) < 128" "0 < NUM_HEADS notebook"
    by (simp_all add: notebook_def)
  from transformer_preserves_shape [OF tokens_64_shape this, of example_block True "\<lambda>s idx. 0"
      example_vit 4 7]
  show ?thesis by (simp add: tokens_64_shape)
qed

text \<open>The notebook's block, built for width 128, on 64 tokens of another width: on tokens of
  width 1 the last addition broadcasts and the result is 128 wide, not 1; on tokens of width
  64 the last addition raises \<^verbatim>\<open>ValueError\<close>.\<close>

theorem transformer_width_counterexample:
  "shape tokens_width_1 = [1, 64, 1]
   \<and> (\<exists>y. transformer notebook example_block False (\<lambda>s idx. 0) tokens_width_1 = Inr y
         \<and> shape y = [1, 64, 128] \<and> shape y \<noteq> shape tokens_width_1)
   \<and> shape tokens_width_64 = [1, 64, 64]
   \<and> transformer notebook example_block False (\<lambda>s idx. 0) tokens_width_64 = Inl ValueError"
proof -
  obtain x2 where x2: "self_attention notebook example_block False (\<lambda>s idx. 0) tokens_width_1
      = Inr x2" "shape x2 = [1, 64, 1]"
    using self_attention_shape [OF tokens_width_1_shape] by blast
  obtain x2' where x2': "self_attention notebook example_block False (\<lambda>s idx. 0) tokens_width_64
      = Inr x2'" "shape x2' = [1, 64, 64]"
    using self_attention_shape [OF tokens_width_64_shape] by blast
  have units: "MLP_UNITS notebook = [256, 128]"
    by (simp add: MLP_UNITS_def notebook_def)
  show ?thesis
    by (simp add: transformer_def x2 x2' units Let_def Add_def elementwise_def
        broadcast_shapes_def tokens_width_1_shape tokens_width_64_shape)
qed

section \<open>The classifier: claims\<close>




text \<open>
  Claim C6. With the TokenLearner switched on, the sequence has
  \<open>(IMAGE_SIZE div PATCH_SIZE)\<^sup>2\<close> tokens after the embedding and after each of the first
  \<open>NUM_LAYERS div 2\<close> iterations of the loop, and \<open>K\<close> tokens after every later iteration;
  the model returns \<open>NUM_CLASSES\<close> values per image. In the notebook the augmented image is
  48x48x3, there are 64 tokens of width 128 up to the block of index 2, 4 tokens after it,
  and 10 outputs.
\<close>

theorem token_count_through_pipeline:
  assumes "shape inputs = [B, H0, W0, C0]" and "INPUT_SHAPE cfg = [H0, W0, C0]" and "0 < C0"
    and "0 < PATCH_SIZE cfg" and "PATCH_SIZE cfg \<le> IMAGE_SIZE cfg" and "0 < PROJECTION_DIM cfg"
    and "0 < K" and "0 < H0" and "0 < W0" and "0 < NUM_HEADS cfg" and "0 < NUM_CLASSES cfg"
    and "shape images = [B', 32, 32, 3]"
  shows "(\<exists>e. embed_patches cfg w training rng inputs = Inr e
            \<and> shape e = [B, (IMAGE_SIZE cfg div PATCH_SIZE cfg) * (IMAGE_SIZE cfg div PATCH_SIZE cfg),
                          PROJECTION_DIM cfg]
            \<and> (\<forall>j\<le>NUM_LAYERS cfg. \<exists>y.
                  encoder_blocks cfg w True K training rng j e = Inr y
                  \<and> shape y = [B, if j \<le> NUM_LAYERS cfg div 2
                                  then (IMAGE_SIZE cfg div PATCH_SIZE cfg) * (IMAGE_SIZE cfg div PATCH_SIZE cfg)
                                  else K,
                               PROJECTION_DIM cfg]))
       \<and> (\<exists>out. create_vit_classifier cfg w True K training rng inputs = Inr out
              \<and> shape out = [B, NUM_CLASSES cfg])
       \<and> shape (data_augmentation notebook training rng images) = [B', 48, 48, 3]
       \<and> (\<exists>e y2 y3 out.
             embed_patches notebook w training rng images = Inr e \<and> shape e = [B', 64, 128]
           \<and> encoder_blocks notebook w True 4 training rng 2 e = Inr y2 \<and> shape y2 = [B', 64, 128]
           \<and> encoder_blocks notebook w True 4 training rng 3 e = Inr y3 \<and> shape y3 = [B', 4, 128]
           \<and> create_vit_classifier notebook w True (NUM_TOKENS notebook) training rng images = Inr out
           \<and> shape out = [B', 10])"
proof -
  obtain e where e: "embed_patches cfg w training rng inputs = Inr e"
    "shape e = [B, NUM_PATCHES cfg, PROJECTION_DIM cfg]"
    using embed_patches_shape [OF assms(1-6)] by blast
  have sq: "shape e = [B, (IMAGE_SIZE cfg div PATCH_SIZE cfg) * (IMAGE_SIZE cfg div PATCH_SIZE cfg),
                   PROJECTION_DIM cfg]"
    using e(2) by (simp add: NUM_PATCHES_def power2_eq_square)
  have m: "0 < IMAGE_SIZE cfg div PATCH_SIZE cfg"
    using assms(4,5) by (simp add: div_greater_zero_iff)
  have "\<forall>j\<le>NUM_LAYERS cfg. \<exists>y.
          encoder_blocks cfg w True K training rng j e = Inr y
          \<and> shape y = [B, if j \<le> NUM_LAYERS cfg div 2
                          then (IMAGE_SIZE cfg div PATCH_SIZE cfg) * (IMAGE_SIZE cfg div PATCH_SIZE cfg)
                          else K,
                       PROJECTION_DIM cfg]"
    using encoder_blocks_shape [OF sq m assms(7) assms(6)] by blast
  with e(1) sq have first: "\<exists>e. embed_patches cfg w training rng inputs = Inr e
            \<and> shape e = [B, (IMAGE_SIZE cfg div PATCH_SIZE cfg) * (IMAGE_SIZE cfg div PATCH_SIZE cfg),
                          PROJECTION_DIM cfg]
            \<and> (\<forall>j\<le>NUM_LAYERS cfg. \<exists>y.
                  encoder_blocks cfg w True K training rng j e = Inr y
                  \<and> shape y = [B, if j \<le> NUM_LAYERS cfg div 2
                                  then (IMAGE_SIZE cfg div PATCH_SIZE cfg) * (IMAGE_SIZE cfg div PATCH_SIZE cfg)
                                  else K,
                               PROJECTION_DIM cfg])"
    by blast
  show ?thesis
    using first create_vit_classifier_shape [OF assms(1-7), of w training rng]
      notebook_pipeline [OF assms(12), of training rng w]
    by blast
qed

text \<open>The notebook's model in training mode on a black image of 32x32x3.\<close>

theorem token_count_through_pipeline_witness:
  "\<exists>e y out. embed_patches notebook example_vit True (\<lambda>s idx. 0) black_image = Inr e
      \<and> shape e = [1, 64, 128]
      \<and> encoder_blocks notebook example_vit True 4 True (\<lambda>s idx. 0) 3 e = Inr y
      \<and> shape y = [1, 4, 128]
      \<and> create_vit_classifier notebook example_vit True 4 True (\<lambda>s idx. 0) black_image = Inr out
      \<and> shape out = [1, 10]"
proof -
  have cfg: "INPUT_SHAPE notebook = [32, 32, 3]" "(0::nat) < 3" "0 < PATCH_SIZE notebook"
    "PATCH_SIZE notebook \<le> IMAGE_SIZE notebook" "0 < PROJECTION_DIM notebook" "0 < (4::nat)"
    "(0::nat) < 32" "(0::nat) < 32" "0 < NUM_HEADS notebook" "0 < NUM_CLASSES notebook"
    by (simp_all add: notebook_def)
  have "(3::nat) \<le> NUM_LAYERS notebook" by (simp add: notebook_def)
  then show ?thesis
    using token_count_through_pipeline [OF black_image_shape cfg black_image_shape,
        of example_vit True "\<lambda>s idx. 0"]
    by (auto simp add: notebook_def)
qed

text \<open>
  Claim C9. In inference mode the output of the model is a function of the weights and the
  input batch alone: two calls that differ only in the random streams return the same.
\<close>

theorem inference_is_deterministic:
  "create_vit_classifier cfg w use_token_learner K False rng inputs
   = create_vit_classifier cfg w use_token_learner K False rng' inputs"
proof -
  have "embed_patches cfg w False rng inputs = embed_patches cfg w False rng' inputs"
    by (rule embed_patches_inference)
  moreover have "encoder_blocks cfg w use_token_learner K False rng (NUM_LAYERS cfg) e
                 = encoder_blocks cfg w use_token_learner K False rng' (NUM_LAYERS cfg) e" for e
    by (rule encoder_blocks_inference)
  ultimately show ?thesis
    by (simp add: create_vit_classifier_def)
qed

text \<open>The notebook's model on a black image, with two different constant streams.\<close>

theorem inference_is_deterministic_witness:
  "\<exists>out. create_vit_classifier notebook example_vit True 4 False (\<lambda>s idx. 0) black_image = Inr out
       \<and> create_vit_classifier notebook example_vit True 4 False (\<lambda>s idx. 1) black_image = Inr out
       \<and> shape out = [1, 10]"
proof -
  have cfg: "INPUT_SHAPE notebook = [32, 32, 3]" "(0::nat) < 3" "0 < PATCH_SIZE notebook"
    "PATCH_SIZE notebook \<le> IMAGE_SIZE notebook" "0 < PROJECTION_DIM notebook" "0 < (4::nat)"
    by (simp_all add: notebook_def)
  from create_vit_classifier_shape [OF black_image_shape cfg, of example_vit False "\<lambda>s idx. 0"]
  obtain out where
    "create_vit_classifier notebook example_vit True 4 False (\<lambda>s idx. 0) black_image = Inr out"
    "shape out = [1, 10]"
    by (auto simp add: notebook_def)
  then show ?thesis
    using inference_is_deterministic [of notebook example_vit True 4 "\<lambda>s idx. 0" black_image
        "\<lambda>s idx. 1"]
    by simp
qed

end
